theory Spec2Isabelle
  imports Main "HOL-Library.Char_ord" "HOL-Library.List_Lexorder"
begin

section \<open>Library functions used by apex.go\<close>

text \<open>
  Go strings are byte sequences and so are HOL strings. The order on strings is the
  lexicographic order on bytes in both (Go's \<open><\<close> on strings; \<open>List_Lexorder\<close> over
  \<open>Char_ord\<close> here).

  An \<open>android.Path\<close> is modelled by the string that its \<open>String()\<close> method returns; two
  paths are the same path when these strings are equal.
\<close>

type_synonym path = string

text \<open>\<open>strings.Join(xs, sep)\<close>.\<close>

fun strings_Join :: "string list \<Rightarrow> string \<Rightarrow> string" where
  "strings_Join [] sep = []"
| "strings_Join [x] sep = x"
| "strings_Join (x # y # ys) sep = x @ sep @ strings_Join (y # ys) sep"

text \<open>\<open>strings.Split(s, "/")\<close>: the fields between the slashes, empty ones included.\<close>

fun splitSlash :: "string \<Rightarrow> string list" where
  "splitSlash [] = [[]]"
| "splitSlash (c # cs) =
     (if c = CHR ''/'' then [] # splitSlash cs
      else (case splitSlash cs of [] \<Rightarrow> [[c]] | w # ws \<Rightarrow> (c # w) # ws))"

text \<open>
  The element loop of \<open>filepath.Clean\<close>: the second argument is the output so far, last
  element first. Empty elements and \<open>.\<close> are dropped; \<open>..\<close> removes the element before
  it when there is one that is not \<open>..\<close>, is dropped at the root of a rooted path, and is
  kept otherwise.
\<close>

fun cleanElems :: "bool \<Rightarrow> string list \<Rightarrow> string list \<Rightarrow> string list" where
  "cleanElems rooted [] out = rev out"
| "cleanElems rooted (e # es) out =
     (if e = [] \<or> e = ''.'' then cleanElems rooted es out
      else if e = ''..'' then
        (case out of
           [] \<Rightarrow> if rooted then cleanElems rooted es [] else cleanElems rooted es [''..'']
         | t # ts \<Rightarrow> if t = ''..'' then cleanElems rooted es (e # t # ts)
                     else cleanElems rooted es ts)
      else cleanElems rooted es (e # out))"

definition filepath_Clean :: "string \<Rightarrow> string" where
  "filepath_Clean p =
     (if p = [] then ''.''
      else let rooted = (hd p = CHR ''/'');
               s = strings_Join (cleanElems rooted (splitSlash p) []) ''/''
           in if rooted then CHR ''/'' # s else if s = [] then ''.'' else s)"

text \<open>\<open>filepath.Join\<close>: leading empty elements are ignored, the rest is joined and cleaned.\<close>

definition filepath_Join :: "string list \<Rightarrow> string" where
  "filepath_Join elem =
     (case dropWhile (\<lambda>e. e = []) elem of
        [] \<Rightarrow> []
      | e # es \<Rightarrow> filepath_Clean (strings_Join (e # es) ''/''))"

text \<open>\<open>filepath.Split\<close>: splits right after the last slash.\<close>

definition filepath_Split :: "string \<Rightarrow> string \<times> string" where
  "filepath_Split p =
     (let n = length (takeWhile (\<lambda>c. c \<noteq> CHR ''/'') (rev p))
      in (take (length p - n) p, drop (length p - n) p))"

definition filepath_Dir :: "string \<Rightarrow> string" where
  "filepath_Dir p = filepath_Clean (fst (filepath_Split p))"

definition filepath_Base :: "string \<Rightarrow> string" where
  "filepath_Base p =
     (if p = [] then ''.''
      else let q = rev (dropWhile (\<lambda>c. c = CHR ''/'') (rev p));
               b = snd (filepath_Split q)
           in if b = [] then ''/'' else b)"

text \<open>\<open>android.InList\<close>.\<close>

definition InList :: "string \<Rightarrow> string list \<Rightarrow> bool" where
  "InList s xs = (s \<in> set xs)"

text \<open>\<open>android.FirstUniqueStrings\<close>: the first occurrence of every string, in order.\<close>

fun firstUniqueAcc :: "string list \<Rightarrow> string list \<Rightarrow> string list" where
  "firstUniqueAcc acc [] = acc"
| "firstUniqueAcc acc (x # xs) =
     (if x \<in> set acc then firstUniqueAcc acc xs else firstUniqueAcc (acc @ [x]) xs)"

definition FirstUniqueStrings :: "string list \<Rightarrow> string list" where
  "FirstUniqueStrings xs = firstUniqueAcc [] xs"

text \<open>\<open>proptools.String\<close>, \<open>proptools.StringDefault\<close>, \<open>proptools.Bool\<close>.\<close>

definition String :: "string option \<Rightarrow> string" where
  "String p = (case p of None \<Rightarrow> [] | Some s \<Rightarrow> s)"

definition StringDefault :: "string option \<Rightarrow> string \<Rightarrow> string" where
  "StringDefault p d = (case p of None \<Rightarrow> d | Some s \<Rightarrow> s)"

definition Bool :: "bool option \<Rightarrow> bool" where
  "Bool p = (case p of None \<Rightarrow> False | Some b \<Rightarrow> b)"

text \<open>
  \<open>android.SrcIsModule\<close>: the module name of a property value of the form \<open>:module\<close>,
  and the empty string for any other value.
\<close>

definition SrcIsModule :: "string \<Rightarrow> string" where
  "SrcIsModule s = (if length s > 1 \<and> hd s = CHR '':'' then tl s else [])"

section \<open>Data model\<close>

datatype dependencyTag =
  sharedLibTag | executableTag | javaLibTag | prebuiltTag | keyTag | certificateTag
  | otherTag

record apexNativeDependencies =
  Native_shared_libs :: "string list"
  Binaries :: "string list"

record apexMultilibProperties =
  First :: apexNativeDependencies
  Both :: apexNativeDependencies
  Prefer32 :: apexNativeDependencies
  Lib32 :: apexNativeDependencies
  Lib64 :: apexNativeDependencies

text \<open>
  \<open>apexBundleProperties\<close>. The top-level lists \<open>Native_shared_libs\<close> and \<open>Binaries\<close> carry
  the prefix \<open>prop_\<close> here, since the fields of \<open>apexNativeDependencies\<close> have these names.
\<close>

record apexBundleProperties =
  Manifest :: "string option"
  File_contexts :: "string option"
  prop_Native_shared_libs :: "string list"
  prop_Binaries :: "string list"
  Java_libs :: "string list"
  Prebuilts :: "string list"
  Key :: "string option"
  Payload_type :: "string option"
  Certificate :: "string option"
  Installable :: "bool option"
  Use_vendor :: "bool option"
  Ignore_system_library_special_case :: "bool option"
  Multilib :: apexMultilibProperties

text \<open>The four \<open>Multilib\<close> blocks of \<open>apexTargetBundleProperties.Target\<close>.\<close>

record apexTargetBundleProperties =
  Target_Android :: apexMultilibProperties
  Target_Host :: apexMultilibProperties
  Target_Linux_bionic :: apexMultilibProperties
  Target_Linux_glibc :: apexMultilibProperties

datatype apexFileClass = etc | nativeSharedLib | nativeExecutable | shBinary | javaSharedLib

datatype apexPackaging = imageApex | zipApex | both

text \<open>
  An \<open>android.Target\<close>, as far as the bundle reads it: \<open>target.String()\<close>,
  \<open>target.Arch.ArchType.Multilib\<close> and \<open>target.Arch.Abi\<close>.
\<close>

record target =
  target_String :: string
  target_Multilib :: string
  target_Abi :: "string list"

section \<open>Dependency requests: \<open>DepsMutator\<close>\<close>

text \<open>
  A call of \<open>ctx.AddFarVariationDependencies\<close> (variations as pairs of mutator and
  variation, tag, names) or of \<open>ctx.AddDependency\<close> (tag, name).
\<close>

datatype depRequest =
  AddFarVariationDependencies "(string \<times> string) list" dependencyTag "string list"
  | AddDependency dependencyTag string

datatype ctxError =
  PropertyErrorf string string "string list"
  | ModuleErrorf string "string list"

definition addDependenciesForNativeModules ::
  "string list \<Rightarrow> string list \<Rightarrow> string \<Rightarrow> string \<Rightarrow> depRequest list" where
  "addDependenciesForNativeModules native_shared_libs binaries arch imageVariation =
     [AddFarVariationDependencies
        [(''arch'', arch), (''image'', imageVariation), (''link'', ''shared''), (''version'', [])]
        sharedLibTag native_shared_libs,
      AddFarVariationDependencies
        [(''arch'', arch), (''image'', imageVariation)]
        executableTag binaries]"

text \<open>\<open>proptools.AppendProperties\<close> on the multilib blocks: every list is appended to.\<close>

definition appendNative ::
  "apexNativeDependencies \<Rightarrow> apexNativeDependencies \<Rightarrow> apexNativeDependencies" where
  "appendNative dst src =
     \<lparr>Native_shared_libs = Native_shared_libs dst @ Native_shared_libs src,
      Binaries = Binaries dst @ Binaries src\<rparr>"

definition AppendProperties ::
  "apexMultilibProperties \<Rightarrow> apexMultilibProperties \<Rightarrow> apexMultilibProperties" where
  "AppendProperties dst src =
     \<lparr>First = appendNative (First dst) (First src),
      Both = appendNative (Both dst) (Both src),
      Prefer32 = appendNative (Prefer32 dst) (Prefer32 src),
      Lib32 = appendNative (Lib32 dst) (Lib32 src),
      Lib64 = appendNative (Lib64 dst) (Lib64 src)\<rparr>"

text \<open>
  What \<open>DepsMutator\<close> reads from its context: the targets of the bundle, whether the OS
  class is \<open>android.Device\<close>, whether the OS is bionic, and the VNDK version of the
  device configuration.
\<close>

record depsContext =
  MultiTargets :: "target list"
  OsClassDevice :: bool
  OsBionic :: bool
  VndkVersion :: string

definition combineProperties ::
  "depsContext \<Rightarrow> apexTargetBundleProperties \<Rightarrow> apexBundleProperties \<Rightarrow> apexBundleProperties" where
  "combineProperties ctx tp p =
     (if OsClassDevice ctx then p\<lparr>Multilib := AppendProperties (Multilib p) (Target_Android tp)\<rparr>
      else let p1 = p\<lparr>Multilib := AppendProperties (Multilib p) (Target_Host tp)\<rparr>
           in if OsBionic ctx
              then p1\<lparr>Multilib := AppendProperties (Multilib p1) (Target_Linux_bionic tp)\<rparr>
              else p1\<lparr>Multilib := AppendProperties (Multilib p1) (Target_Linux_glibc tp)\<rparr>)"

definition getImageVariation :: "depsContext \<Rightarrow> apexBundleProperties \<Rightarrow> string" where
  "getImageVariation config p =
     (if VndkVersion config \<noteq> [] \<and> Bool (Use_vendor p) then ''vendor'' else ''core'')"

text \<open>The first loop of \<open>DepsMutator\<close>.\<close>

fun has32BitTarget :: "target list \<Rightarrow> bool \<Rightarrow> bool" where
  "has32BitTarget [] acc = acc"
| "has32BitTarget (t # ts) acc =
     has32BitTarget ts (if target_Multilib t = ''lib32'' then True else acc)"

text \<open>
  The body of the second loop of \<open>DepsMutator\<close> for the target at index \<open>i\<close>: the requests
  it makes, in order.
\<close>

definition depsForTarget ::
  "depsContext \<Rightarrow> apexBundleProperties \<Rightarrow> bool \<Rightarrow> nat \<Rightarrow> target \<Rightarrow> depRequest list" where
  "depsForTarget config p has32 i t =
     [AddFarVariationDependencies
        [(''arch'', target_String t), (''image'', getImageVariation config p), (''link'', ''shared'')]
        sharedLibTag (prop_Native_shared_libs p)]
     @ addDependenciesForNativeModules
         (Native_shared_libs (Both (Multilib p))) (Binaries (Both (Multilib p)))
         (target_String t) (getImageVariation config p)
     @ (if i = 0 then
          [AddFarVariationDependencies
             [(''arch'', target_String t), (''image'', getImageVariation config p)]
             executableTag (prop_Binaries p)]
          @ addDependenciesForNativeModules
              (Native_shared_libs (First (Multilib p))) (Binaries (First (Multilib p)))
              (target_String t) (getImageVariation config p)
          @ [AddFarVariationDependencies [(''arch'', target_String t)] prebuiltTag (Prebuilts p)]
        else [])
     @ (if target_Multilib t = ''lib32'' then
          addDependenciesForNativeModules
            (Native_shared_libs (Lib32 (Multilib p))) (Binaries (Lib32 (Multilib p)))
            (target_String t) (getImageVariation config p)
          @ addDependenciesForNativeModules
              (Native_shared_libs (Prefer32 (Multilib p))) (Binaries (Prefer32 (Multilib p)))
              (target_String t) (getImageVariation config p)
        else if target_Multilib t = ''lib64'' then
          addDependenciesForNativeModules
            (Native_shared_libs (Lib64 (Multilib p))) (Binaries (Lib64 (Multilib p)))
            (target_String t) (getImageVariation config p)
          @ (if \<not> has32 then
               addDependenciesForNativeModules
                 (Native_shared_libs (Prefer32 (Multilib p))) (Binaries (Prefer32 (Multilib p)))
                 (target_String t) (getImageVariation config p)
             else [])
        else [])"

fun depsForTargets ::
  "depsContext \<Rightarrow> apexBundleProperties \<Rightarrow> bool \<Rightarrow> nat \<Rightarrow> target list \<Rightarrow> depRequest list" where
  "depsForTargets config p has32 i [] = []"
| "depsForTargets config p has32 i (t # ts) =
     depsForTarget config p has32 i t @ depsForTargets config p has32 (Suc i) ts"

text \<open>
  \<open>DepsMutator\<close>: the errors it reports and the requests it makes. Without a key name it
  reports \<open>key is missing\<close> and returns before the key and certificate requests.
\<close>

definition DepsMutator ::
  "depsContext \<Rightarrow> apexTargetBundleProperties \<Rightarrow> apexBundleProperties
     \<Rightarrow> ctxError list \<times> depRequest list" where
  "DepsMutator ctx tp p0 =
     (let targets = MultiTargets ctx;
          p = combineProperties ctx tp p0;
          has32 = has32BitTarget targets False;
          reqs = depsForTargets ctx p has32 0 targets
                 @ [AddFarVariationDependencies [(''arch'', ''android_common'')] javaLibTag (Java_libs p)]
      in if String (Key p) = [] then ([ModuleErrorf ''key is missing'' []], reqs)
         else let cert = SrcIsModule (String (Certificate p))
              in ([], reqs @ [AddDependency keyTag (String (Key p))]
                      @ (if cert \<noteq> [] then [AddDependency certificateTag cert] else [])))"

section \<open>Modules and the dependency walk\<close>

text \<open>
  The module kinds that the bundle distinguishes by type assertion, with the attributes
  it reads from each. \<open>cc_OutputFile\<close> is the path that \<open>cc.OutputFile().Path()\<close> yields.
\<close>

record ccModule =
  cc_Multilib :: string
  cc_Native :: bool
  cc_ArchType :: string
  cc_RelativeInstallPath :: string
  cc_OutputFile :: path
  cc_Symlinks :: "string list"
  cc_IsStubs :: bool
  cc_HasStubsVariants :: bool

record shBinaryModule =
  sh_SubDir :: string
  sh_OutputFile :: path

record javaLibrary =
  java_DexJarFile :: "path option"

record prebuiltEtc =
  prebuilt_SubDir :: string
  prebuilt_OutputFile :: path

record apexKey =
  private_key_file :: "path option"
  public_key_file :: "path option"
  key_installable :: bool

text \<open>\<open>java.Certificate\<close>.\<close>

record Certificate =
  Pem :: path
  Key_file :: path

datatype moduleImpl =
  ApexBundle
  | CcModule ccModule
  | ShBinary shBinaryModule
  | JavaLibrary javaLibrary
  | PrebuiltEtc prebuiltEtc
  | ApexKey apexKey
  | AndroidAppCertificate Certificate
  | OtherModule

text \<open>
  A module: its name, its kind, whether it implements \<open>android.ApexModule\<close>, and what
  \<open>CanHaveApexVariants()\<close> and \<open>IsInstallableToApex()\<close> return for it.
\<close>

record module =
  module_Name :: string
  module_impl :: moduleImpl
  ApexModule :: bool
  CanHaveApexVariants :: bool
  IsInstallableToApex :: bool

definition isApexBundle :: "module \<Rightarrow> bool" where
  "isApexBundle m = (module_impl m = ApexBundle)"

text \<open>
  The dependencies below a module, as the walk meets them: every edge has a tag, the
  child it leads to, and the edges below the child.
\<close>

datatype dep = Dep (edgeTag: dependencyTag) (edgeChild: module) (edgeDeps: "dep list")

text \<open>
  Modelled from the spec: \<open>WalkDeps\<close> of the graph engine, "a depth-first walk from this
  node primitive with a per-edge continue/stop decision callback" that stops "descending
  past any already-visited node". The callback \<open>visit\<close> gets the tag of the edge, the child
  and the parent, and returns its decision with the new state; the walk goes below the
  child when the decision is to continue and the child was not walked before. The
  modules walked so far are kept in \<open>visited\<close>; a module is identified by its value.
\<close>

fun WalkDeps ::
  "(dependencyTag \<Rightarrow> module \<Rightarrow> module \<Rightarrow> 's \<Rightarrow> bool \<times> 's)
     \<Rightarrow> module \<Rightarrow> dep list \<Rightarrow> module list \<times> 's \<Rightarrow> module list \<times> 's" where
  "WalkDeps visit parent [] (visited, s) = (visited, s)"
| "WalkDeps visit parent (Dep depTag child ds # rest) (visited, s) =
     (case visit depTag child parent s of
        (recurse, s1) \<Rightarrow>
          if recurse \<and> child \<notin> set visited
          then (case WalkDeps visit child ds (visited, s1) of
                  (visited2, s2) \<Rightarrow> WalkDeps visit parent rest (child # visited2, s2))
          else WalkDeps visit parent rest (visited, s1))"

section \<open>Variant propagation: \<open>apexDepsMutator\<close>\<close>

text \<open>
  The state of the propagation walk: the calls of \<open>android.UpdateApexDependency\<close>
  (bundle name, dependency name, \<open>directDep\<close>) and the calls of \<open>BuildForApex\<close> (module
  name, bundle name), in order.
\<close>

record apexDepsState =
  UpdateApexDependency_calls :: "(string \<times> string \<times> bool) list"
  BuildForApex_calls :: "(string \<times> string) list"

text \<open>\<open>installable()\<close> of the bundle.\<close>

definition installable :: "apexBundleProperties \<Rightarrow> bool" where
  "installable p = (Installable p = None \<or> Bool (Installable p))"

text \<open>The callback of the walk in \<open>apexDepsMutator\<close>.\<close>

definition apexDepsVisit ::
  "apexBundleProperties \<Rightarrow> bool \<Rightarrow> string
     \<Rightarrow> dependencyTag \<Rightarrow> module \<Rightarrow> module \<Rightarrow> apexDepsState \<Rightarrow> bool \<times> apexDepsState" where
  "apexDepsVisit p testApex apexBundleName depTag child parent s =
     (let depName = module_Name child;
          directDep = isApexBundle parent;
          s1 = (if installable p \<and> \<not> testApex
                then s\<lparr>UpdateApexDependency_calls :=
                         UpdateApexDependency_calls s @ [(apexBundleName, depName, directDep)]\<rparr>
                else s)
      in if ApexModule child \<and> CanHaveApexVariants child
         then (True, s1\<lparr>BuildForApex_calls :=
                          BuildForApex_calls s1 @ [(module_Name child, apexBundleName)]\<rparr>)
         else (False, s1))"

text \<open>
  \<open>apexDepsMutator\<close> on a module \<open>m\<close> with the dependencies \<open>ds\<close>: nothing happens unless
  the module is an apex bundle.
\<close>

definition apexDepsMutator ::
  "apexBundleProperties \<Rightarrow> bool \<Rightarrow> module \<Rightarrow> dep list \<Rightarrow> apexDepsState" where
  "apexDepsMutator p testApex m ds =
     (let s0 = \<lparr>UpdateApexDependency_calls = [], BuildForApex_calls = []\<rparr>
      in if isApexBundle m
         then snd (WalkDeps (apexDepsVisit p testApex (module_Name m)) m ds ([], s0))
         else s0)"

section \<open>File collection: the walk of \<open>GenerateAndroidBuildActions\<close>\<close>

text \<open>
  \<open>apexFile\<close>. The field \<open>class\<close> is \<open>fileClass\<close> and the field \<open>module\<close> is \<open>fileModule\<close>
  here; \<open>fileModule\<close> is \<open>None\<close> for \<open>nil\<close>.
\<close>

record apexFile =
  builtFile :: path
  moduleName :: string
  installDir :: string
  fileClass :: apexFileClass
  fileModule :: "module option"
  symlinks :: "string list"

text \<open>
  The variables that the callback of the walk assigns (\<open>None\<close> is \<open>nil\<close>, and for
  \<open>certificate\<close> the zero value), with the errors reported to the context.
\<close>

record walkState =
  w_filesInfo :: "apexFile list"
  w_keyFile :: "path option"
  w_pubKeyFile :: "path option"
  w_certificate :: "Certificate option"
  w_errors :: "ctxError list"

definition getCopyManifestForNativeLibrary :: "string \<Rightarrow> ccModule \<Rightarrow> bool \<Rightarrow> path \<times> string" where
  "getCopyManifestForNativeLibrary ccName cc handleSpecialLibs =
     (let d0 = (if cc_Multilib cc = ''lib32'' then ''lib''
                else if cc_Multilib cc = ''lib64'' then ''lib64'' else []);
          d1 = filepath_Join [d0, cc_RelativeInstallPath cc];
          d2 = (if \<not> cc_Native cc then filepath_Join [d1, cc_ArchType cc] else d1);
          d3 = (if handleSpecialLibs \<and> (ccName = ''libc'' \<or> ccName = ''libm'' \<or> ccName = ''libdl'')
                then filepath_Join [d2, ''bionic''] else d2)
      in (cc_OutputFile cc, d3))"

definition getCopyManifestForExecutable :: "ccModule \<Rightarrow> path \<times> string" where
  "getCopyManifestForExecutable cc = (cc_OutputFile cc, ''bin'')"

definition getCopyManifestForShBinary :: "shBinaryModule \<Rightarrow> path \<times> string" where
  "getCopyManifestForShBinary sh = (sh_OutputFile sh, filepath_Join [''bin'', sh_SubDir sh])"

definition getCopyManifestForJavaLibrary :: "javaLibrary \<Rightarrow> path option \<times> string" where
  "getCopyManifestForJavaLibrary java = (java_DexJarFile java, ''javalib'')"

definition getCopyManifestForPrebuiltEtc :: "prebuiltEtc \<Rightarrow> path \<times> string" where
  "getCopyManifestForPrebuiltEtc prebuilt =
     (prebuilt_OutputFile prebuilt, filepath_Join [''etc'', prebuilt_SubDir prebuilt])"

definition appendFile :: "walkState \<Rightarrow> apexFile \<Rightarrow> walkState" where
  "appendFile s f = s\<lparr>w_filesInfo := w_filesInfo s @ [f]\<rparr>"

definition reportError :: "walkState \<Rightarrow> ctxError \<Rightarrow> walkState" where
  "reportError s e = s\<lparr>w_errors := w_errors s @ [e]\<rparr>"

text \<open>
  The callback of the walk in \<open>GenerateAndroidBuildActions\<close>, for the edge with tag
  \<open>depTag\<close> from \<open>parent\<close> to \<open>child\<close>. \<open>debuggable\<close> is \<open>ctx.Config().Debuggable()\<close>.
\<close>

definition collectVisit ::
  "bool \<Rightarrow> bool \<Rightarrow> dependencyTag \<Rightarrow> module \<Rightarrow> module \<Rightarrow> walkState \<Rightarrow> bool \<times> walkState" where
  "collectVisit handleSpecialLibs debuggable depTag child parent s =
     (if isApexBundle parent then
        (let depName = module_Name child in
         case depTag of
           sharedLibTag \<Rightarrow>
             (case module_impl child of
                CcModule cc \<Rightarrow>
                  (case getCopyManifestForNativeLibrary depName cc handleSpecialLibs of
                     (fileToCopy, dirInApex) \<Rightarrow>
                       (True, appendFile s
                          \<lparr>builtFile = fileToCopy, moduleName = depName, installDir = dirInApex,
                           fileClass = nativeSharedLib, fileModule = Some child, symlinks = []\<rparr>))
              | _ \<Rightarrow>
                  (False, reportError s
                     (PropertyErrorf ''native_shared_libs''
                        ''%q is not a cc_library or cc_library_shared module'' [depName])))
         | executableTag \<Rightarrow>
             (case module_impl child of
                CcModule cc \<Rightarrow>
                  if \<not> cc_Native cc then (True, s)
                  else (case getCopyManifestForExecutable cc of
                          (fileToCopy, dirInApex) \<Rightarrow>
                            (True, appendFile s
                               \<lparr>builtFile = fileToCopy, moduleName = depName, installDir = dirInApex,
                                fileClass = nativeExecutable, fileModule = Some child,
                                symlinks = cc_Symlinks cc\<rparr>))
              | ShBinary sh \<Rightarrow>
                  (case getCopyManifestForShBinary sh of
                     (fileToCopy, dirInApex) \<Rightarrow>
                       (False, appendFile s
                          \<lparr>builtFile = fileToCopy, moduleName = depName, installDir = dirInApex,
                           fileClass = shBinary, fileModule = Some child, symlinks = []\<rparr>))
              | _ \<Rightarrow>
                  (False, reportError s
                     (PropertyErrorf ''binaries'' ''%q is neithher cc_binary nor sh_binary'' [depName])))
         | javaLibTag \<Rightarrow>
             (case module_impl child of
                JavaLibrary java \<Rightarrow>
                  (case getCopyManifestForJavaLibrary java of
                     (None, dirInApex) \<Rightarrow>
                       (True, reportError s
                          (PropertyErrorf ''java_libs''
                             ''%q is not configured to be compiled into dex'' [depName]))
                   | (Some fileToCopy, dirInApex) \<Rightarrow>
                       (True, appendFile s
                          \<lparr>builtFile = fileToCopy, moduleName = depName, installDir = dirInApex,
                           fileClass = javaSharedLib, fileModule = Some child, symlinks = []\<rparr>))
              | _ \<Rightarrow>
                  (False, reportError s
                     (PropertyErrorf ''java_libs'' ''%q is not a java_library module'' [depName])))
         | prebuiltTag \<Rightarrow>
             (case module_impl child of
                PrebuiltEtc prebuilt \<Rightarrow>
                  (case getCopyManifestForPrebuiltEtc prebuilt of
                     (fileToCopy, dirInApex) \<Rightarrow>
                       (True, appendFile s
                          \<lparr>builtFile = fileToCopy, moduleName = depName, installDir = dirInApex,
                           fileClass = etc, fileModule = Some child, symlinks = []\<rparr>))
              | _ \<Rightarrow>
                  (False, reportError s
                     (PropertyErrorf ''prebuilts'' ''%q is not a prebuilt_etc module'' [depName])))
         | keyTag \<Rightarrow>
             (case module_impl child of
                ApexKey key \<Rightarrow>
                  (False,
                   s\<lparr>w_keyFile := private_key_file key,
                     w_pubKeyFile := (if \<not> key_installable key \<and> debuggable
                                    then public_key_file key else w_pubKeyFile s)\<rparr>)
              | _ \<Rightarrow>
                  (False, reportError s
                     (PropertyErrorf ''key'' ''%q is not an apex_key module'' [depName])))
         | certificateTag \<Rightarrow>
             (case module_impl child of
                AndroidAppCertificate dep \<Rightarrow> (False, s\<lparr>w_certificate := Some dep\<rparr>)
              | _ \<Rightarrow>
                  (False, reportError s
                     (ModuleErrorf
                        ''certificate dependency %q must be an android_app_certificate module''
                        [depName])))
         | otherTag \<Rightarrow> (False, s))
      else
        (if ApexModule child \<and> CanHaveApexVariants child \<and> IsInstallableToApex child then
           (case module_impl child of
              CcModule cc \<Rightarrow>
                if cc_IsStubs cc \<or> cc_HasStubsVariants cc then (False, s)
                else (case getCopyManifestForNativeLibrary (module_Name child) cc handleSpecialLibs of
                        (fileToCopy, dirInApex) \<Rightarrow>
                          (True, appendFile s
                             \<lparr>builtFile = fileToCopy, moduleName = module_Name child,
                              installDir = dirInApex, fileClass = nativeSharedLib,
                              fileModule = Some child, symlinks = []\<rparr>))
            | _ \<Rightarrow> (False, s))
         else (False, s)))"

text \<open>
  \<open>removeDup\<close>: \<open>encountered\<close> is the set of the paths that the map of the source
  holds as true.
\<close>

fun removeDupLoop :: "path set \<Rightarrow> apexFile list \<Rightarrow> apexFile list \<Rightarrow> apexFile list" where
  "removeDupLoop encountered result [] = result"
| "removeDupLoop encountered result (f # fs) =
     (if builtFile f \<notin> encountered
      then removeDupLoop (insert (builtFile f) encountered) (result @ [f]) fs
      else removeDupLoop encountered result fs)"

definition removeDup :: "apexFile list \<Rightarrow> apexFile list" where
  "removeDup fs = removeDupLoop {} [] fs"

text \<open>
  \<open>sort.Slice\<close> by \<open>builtFile.String()\<close>, as an insertion sort. \<open>sort.Slice\<close> does not say
  in which order it leaves entries with equal keys; after \<open>removeDup\<close> there are none.
\<close>

definition sortFilesInfo :: "apexFile list \<Rightarrow> apexFile list" where
  "sortFilesInfo fs = sort_key builtFile fs"

definition prependApexName :: "string \<Rightarrow> apexFile list \<Rightarrow> apexFile list" where
  "prependApexName name fs = map (\<lambda>f. f\<lparr>moduleName := name @ ''.'' @ moduleName f\<rparr>) fs"

section \<open>Packaging\<close>

datatype panic = MustBeEitherZipOrImage | NilPath

definition apexPackaging_image :: "apexPackaging \<Rightarrow> bool" where
  "apexPackaging_image a = (case a of imageApex \<Rightarrow> True | both \<Rightarrow> True | zipApex \<Rightarrow> False)"

definition apexPackaging_zip :: "apexPackaging \<Rightarrow> bool" where
  "apexPackaging_zip a = (case a of zipApex \<Rightarrow> True | both \<Rightarrow> True | imageApex \<Rightarrow> False)"

definition apexPackaging_suffix :: "apexPackaging \<Rightarrow> panic + string" where
  "apexPackaging_suffix a =
     (case a of imageApex \<Rightarrow> Inr ''.apex'' | zipApex \<Rightarrow> Inr ''.zipapex''
      | both \<Rightarrow> Inl MustBeEitherZipOrImage)"

definition apexPackaging_name :: "apexPackaging \<Rightarrow> panic + string" where
  "apexPackaging_name a =
     (case a of imageApex \<Rightarrow> Inr ''image'' | zipApex \<Rightarrow> Inr ''zip''
      | both \<Rightarrow> Inl MustBeEitherZipOrImage)"

text \<open>
  What \<open>GenerateAndroidBuildActions\<close> reads from its context, beyond what \<open>DepsMutator\<close>
  reads: the names that locate the module, the directories of the build (\<open>BuildDir\<close> for
  outputs, \<open>InstallRoot\<close> for what the module installs), the configuration, and the source
  files that exist (for \<open>ExistentPathForSource\<close>).
\<close>

record moduleContext = depsContext +
  ModuleName :: string
  ModuleDir :: string
  ModuleSubDir :: string
  BuildDir :: string
  InstallRoot :: string
  Debuggable :: bool
  FlattenApex :: bool
  UnbundledBuild :: bool
  PrebuiltOS :: string
  GOOS :: string
  DefaultAppCertificateDir :: path
  DefaultAppCertificate :: Certificate
  OverrideManifestPackageName :: "string option"
  ExistingSources :: "string list"

text \<open>
  The path constructors of the \<open>android\<close> package, as joins below the directories of
  the context: outputs below \<open>BuildDir\<close>, the outputs of the module below
  \<open>.intermediates\<close>, its directory, its name and its variant there, the sources of the
  module below its directory, and what it installs below \<open>InstallRoot\<close>.
\<close>

definition PathForOutput :: "moduleContext \<Rightarrow> string list \<Rightarrow> path" where
  "PathForOutput ctx paths = filepath_Join (BuildDir ctx # paths)"

definition PathForModuleOut :: "moduleContext \<Rightarrow> string list \<Rightarrow> path" where
  "PathForModuleOut ctx paths =
     PathForOutput ctx ([''.intermediates'', ModuleDir ctx, ModuleName ctx, ModuleSubDir ctx] @ paths)"

definition PathForModuleSrc :: "moduleContext \<Rightarrow> string \<Rightarrow> path" where
  "PathForModuleSrc ctx p = filepath_Join [ModuleDir ctx, p]"

definition PathForModuleInstall :: "moduleContext \<Rightarrow> string list \<Rightarrow> path" where
  "PathForModuleInstall ctx paths = filepath_Join (InstallRoot ctx # paths)"

datatype rule =
  generateFsConfig | apexRule | zipApexRule | apexProtoConvertRule | apexBundleRule
  | Signapk | Cp

text \<open>A call of \<open>ctx.Build\<close> and a call of \<open>ctx.InstallFile\<close>.\<close>

record BuildParams =
  Rule :: rule
  Description :: string
  Output :: path
  Input :: "path option"
  Implicits :: "path list"
  Args :: "(string \<times> string) list"

record InstallFile =
  install_path :: path
  install_name :: string
  install_src :: path

text \<open>
  The fields of the bundle that generation assigns (prefix \<open>a_\<close>), and what it has done
  to its context: the build rules created, the files installed, the errors reported.
\<close>

record genState =
  a_apexTypes :: apexPackaging
  a_bundleModuleFile :: "path option"
  a_outputFiles :: "apexPackaging \<Rightarrow> path option"
  a_installDir :: path
  a_filesInfo :: "apexFile list"
  a_flattened :: bool
  ctx_Build :: "BuildParams list"
  ctx_InstallFile :: "InstallFile list"
  ctx_errors :: "ctxError list"

definition newBundle :: genState where
  "newBundle =
     \<lparr>a_apexTypes = imageApex, a_bundleModuleFile = None, a_outputFiles = (\<lambda>_. None),
      a_installDir = [], a_filesInfo = [], a_flattened = False,
      ctx_Build = [], ctx_InstallFile = [], ctx_errors = []\<rparr>"

text \<open>The copy commands of one file.\<close>

definition copyCommandsFor :: "path \<Rightarrow> apexFile \<Rightarrow> string list" where
  "copyCommandsFor imageDir f =
     (let src = builtFile f;
          dest = filepath_Join [installDir f, filepath_Base src];
          dest_path = filepath_Join [imageDir, dest]
      in [''mkdir -p '' @ filepath_Dir dest_path, ''cp '' @ src @ '' '' @ dest_path]
         @ map (\<lambda>sym. ''ln -s '' @ filepath_Base dest @ '' ''
                         @ filepath_Join [filepath_Dir dest_path, sym])
               (symlinks f))"

text \<open>One step up: the directory part of \<open>filepath.Split\<close> without its trailing slash.\<close>

definition parentDir :: "string \<Rightarrow> string" where
  "parentDir dir =
     (let d = fst (filepath_Split dir) in if length d > 0 then take (length d - 1) d else d)"

text \<open>The inner loop of the access-mode manifest: \<open>dir\<close> and its ancestors.\<close>

function addDirs :: "string \<Rightarrow> string list \<Rightarrow> string list" where
  "addDirs dir executablePaths =
     (if \<not> InList dir executablePaths \<and> dir \<noteq> []
      then addDirs (parentDir dir) (executablePaths @ [dir])
      else executablePaths)"
  by pat_completeness auto
termination
proof (relation "measure (\<lambda>(dir, _). length dir)")
  show "wf (measure (\<lambda>(dir, _). length dir))" by simp
next
  fix dir :: string and executablePaths :: "string list"
  assume "\<not> InList dir executablePaths \<and> dir \<noteq> []"
  then have "0 < length dir" by simp
  then have "length (parentDir dir) < length dir"
    by (auto simp: parentDir_def filepath_Split_def Let_def)
  then show "((parentDir dir, executablePaths @ [dir]), (dir, executablePaths))
               \<in> measure (\<lambda>(dir, _). length dir)"
    by simp
qed

declare addDirs.simps [simp del]

text \<open>
  The outer loop of the access-mode manifest over \<open>a.filesInfo\<close>: the read-only paths and
  the executable paths so far.
\<close>

fun fsConfigPaths :: "apexFile list \<Rightarrow> string list \<times> string list \<Rightarrow> string list \<times> string list" where
  "fsConfigPaths [] (readOnlyPaths, executablePaths) = (readOnlyPaths, executablePaths)"
| "fsConfigPaths (f # fs) (readOnlyPaths, executablePaths) =
     (let pathInApex = filepath_Join [installDir f, filepath_Base (builtFile f)]
      in if installDir f = ''bin''
         then fsConfigPaths fs
                (readOnlyPaths,
                 addDirs (installDir f)
                   (executablePaths @ [pathInApex]
                    @ map (\<lambda>s. filepath_Join [''bin'', s]) (symlinks f)))
         else fsConfigPaths fs
                (readOnlyPaths @ [pathInApex], addDirs (installDir f) executablePaths))"

text \<open>\<open>sort.Strings\<close>.\<close>

definition sort_Strings :: "string list \<Rightarrow> string list" where
  "sort_Strings xs = sort_key (\<lambda>x. x) xs"

text \<open>
  The paths and arguments that \<open>buildUnflattenedApex\<close> computes: the manifest of the
  bundle, the security-label file, the ABIs of the targets, the tool path, and the copy
  commands for the payload with the given suffix.
\<close>

definition manifestPath :: "moduleContext \<Rightarrow> apexBundleProperties \<Rightarrow> path" where
  "manifestPath ctx p = PathForModuleSrc ctx (StringDefault (Manifest p) ''apex_manifest.json'')"

definition fileContextsPath :: "moduleContext \<Rightarrow> apexBundleProperties \<Rightarrow> string" where
  "fileContextsPath ctx p =
     ''system/sepolicy/apex/'' @ StringDefault (File_contexts p) (ModuleName ctx)
     @ ''-file_contexts''"

definition targetAbis :: "moduleContext \<Rightarrow> string list" where
  "targetAbis ctx =
     FirstUniqueStrings
       (concat (map (\<lambda>t. case target_Abi t of [] \<Rightarrow> [] | abi # _ \<Rightarrow> [abi]) (MultiTargets ctx)))"

definition toolPath :: "moduleContext \<Rightarrow> string" where
  "toolPath ctx =
     PathForOutput ctx [''host'', PrebuiltOS ctx, ''bin''] @ '':''
     @ filepath_Join [''prebuilts'', ''sdk'', ''tools'', GOOS ctx, ''bin'']"

definition copyCommands :: "moduleContext \<Rightarrow> string \<Rightarrow> apexFile list \<Rightarrow> string list" where
  "copyCommands ctx suffix files =
     concat (map (copyCommandsFor (PathForModuleOut ctx [''image'' @ suffix])) files)"

text \<open>
  The calls of \<open>ctx.Build\<close> in \<open>buildUnflattenedApex\<close>, each with its parameters:
  the access-mode manifest, the image, its proto conversion and bundle module, the zip,
  and the signing of the payload.
\<close>

definition generateFsConfigParams :: "moduleContext \<Rightarrow> apexFile list \<Rightarrow> BuildParams" where
  "generateFsConfigParams ctx files =
     (case fsConfigPaths files ([], []) of
        (readOnlyPaths, executablePaths) \<Rightarrow>
          \<lparr>Rule = generateFsConfig, Description = ''generate fs config'',
           Output = PathForModuleOut ctx [''canned_fs_config''], Input = None, Implicits = [],
           Args = [(''ro_paths'', strings_Join (sort_Strings readOnlyPaths) '' ''),
                   (''exec_paths'', strings_Join (sort_Strings executablePaths) '' '')]\<rparr>)"

definition apexRuleParams ::
  "moduleContext \<Rightarrow> apexBundleProperties \<Rightarrow> apexFile list \<Rightarrow> path \<Rightarrow> path option
     \<Rightarrow> string \<Rightarrow> string \<Rightarrow> BuildParams" where
  "apexRuleParams ctx p files keyFile pubKeyFile name suffix =
     (let cannedFsConfig = PathForModuleOut ctx [''canned_fs_config''];
          fileContexts = fileContextsPath ctx p;
          implicitInputs = map builtFile files @ [manifestPath ctx p]
            @ [cannedFsConfig, fileContexts, keyFile]
            @ (case pubKeyFile of None \<Rightarrow> [] | Some k \<Rightarrow> [k]);
          optFlags = (case pubKeyFile of None \<Rightarrow> [] | Some k \<Rightarrow> [''--pubkey '' @ k])
            @ (case OverrideManifestPackageName ctx of None \<Rightarrow> []
               | Some n \<Rightarrow> [''--override_apk_package_name '' @ n])
      in \<lparr>Rule = apexRule, Description = ''apex ('' @ name @ '')'',
          Output = PathForModuleOut ctx [ModuleName ctx @ suffix @ ''.unsigned''],
          Input = None, Implicits = implicitInputs,
          Args = [(''tool_path'', toolPath ctx),
                  (''image_dir'', PathForModuleOut ctx [''image'' @ suffix]),
                  (''copy_commands'', strings_Join (copyCommands ctx suffix files) '' && ''),
                  (''manifest'', manifestPath ctx p),
                  (''file_contexts'', fileContexts),
                  (''canned_fs_config'', cannedFsConfig),
                  (''key'', keyFile),
                  (''opt_flags'', strings_Join optFlags '' '')]\<rparr>)"

definition apexProtoConvertParams :: "moduleContext \<Rightarrow> string \<Rightarrow> BuildParams" where
  "apexProtoConvertParams ctx suffix =
     \<lparr>Rule = apexProtoConvertRule, Description = ''apex proto convert'',
      Output = PathForModuleOut ctx [ModuleName ctx @ ''.pb'' @ suffix],
      Input = Some (PathForModuleOut ctx [ModuleName ctx @ suffix @ ''.unsigned'']),
      Implicits = [], Args = []\<rparr>"

definition apexBundleParams :: "moduleContext \<Rightarrow> string \<Rightarrow> BuildParams" where
  "apexBundleParams ctx suffix =
     \<lparr>Rule = apexBundleRule, Description = ''apex bundle module'',
      Output = PathForModuleOut ctx [ModuleName ctx @ suffix @ ''-base.zip''],
      Input = Some (PathForModuleOut ctx [ModuleName ctx @ ''.pb'' @ suffix]),
      Implicits = [], Args = [(''abi'', strings_Join (targetAbis ctx) ''.'')]\<rparr>"

definition zipApexRuleParams ::
  "moduleContext \<Rightarrow> apexBundleProperties \<Rightarrow> apexFile list \<Rightarrow> string \<Rightarrow> string \<Rightarrow> BuildParams" where
  "zipApexRuleParams ctx p files name suffix =
     \<lparr>Rule = zipApexRule, Description = ''apex ('' @ name @ '')'',
      Output = PathForModuleOut ctx [ModuleName ctx @ suffix @ ''.unsigned''],
      Input = None, Implicits = map builtFile files @ [manifestPath ctx p],
      Args = [(''tool_path'', toolPath ctx),
              (''image_dir'', PathForModuleOut ctx [''image'' @ suffix]),
              (''copy_commands'', strings_Join (copyCommands ctx suffix files) '' && ''),
              (''manifest'', manifestPath ctx p)]\<rparr>"

definition signapkParams :: "moduleContext \<Rightarrow> string \<Rightarrow> Certificate \<Rightarrow> BuildParams" where
  "signapkParams ctx suffix c =
     \<lparr>Rule = Signapk, Description = ''signapk'',
      Output = PathForModuleOut ctx [ModuleName ctx @ suffix],
      Input = Some (PathForModuleOut ctx [ModuleName ctx @ suffix @ ''.unsigned'']),
      Implicits = [],
      Args = [(''certificates'', strings_Join [Pem c, Key_file c] '' ''),
              (''flags'', ''-a 4096'')]\<rparr>"

text \<open>The installation of the unflattened payload with the given suffix.\<close>

definition unflattenedInstall :: "moduleContext \<Rightarrow> string \<Rightarrow> InstallFile" where
  "unflattenedInstall ctx suffix =
     \<lparr>install_path = PathForModuleInstall ctx [''apex''],
      install_name = ModuleName ctx @ suffix,
      install_src = PathForModuleOut ctx [ModuleName ctx @ suffix]\<rparr>"

text \<open>
  The certificate that \<open>buildUnflattenedApex\<close> signs with: from the default certificate
  directory for a certificate given by name, the default certificate when none is given,
  and for a certificate given as a module what the walk has assigned.
\<close>

definition signingCertificate ::
  "moduleContext \<Rightarrow> apexBundleProperties \<Rightarrow> Certificate option \<Rightarrow> Certificate option" where
  "signingCertificate ctx p certificate =
     (let cert = String (Certificate p)
      in if cert \<noteq> [] \<and> SrcIsModule cert = []
         then Some \<lparr>Pem = filepath_Join [DefaultAppCertificateDir ctx, cert @ ''.x509.pem''],
                    Key_file = filepath_Join [DefaultAppCertificateDir ctx, cert @ ''.pk8'']\<rparr>
         else if cert = [] then Some (DefaultAppCertificate ctx)
         else certificate)"

text \<open>
  The image branch of \<open>buildUnflattenedApex\<close>: the state after it, and whether the function
  returns there (the security-label file is missing).
\<close>

definition imagePayload ::
  "moduleContext \<Rightarrow> apexBundleProperties \<Rightarrow> path \<Rightarrow> path option \<Rightarrow> apexPackaging
     \<Rightarrow> string \<Rightarrow> genState \<Rightarrow> panic + (genState \<times> bool)" where
  "imagePayload ctx p keyFile pubKeyFile apexType suffix a =
     (let a1 = a\<lparr>ctx_Build := ctx_Build a @ [generateFsConfigParams ctx (a_filesInfo a)]\<rparr>
      in if fileContextsPath ctx p \<notin> set (ExistingSources ctx)
         then Inr (a1\<lparr>ctx_errors := ctx_errors a1 @
                      [ModuleErrorf ''Cannot find file_contexts file: %q''
                         [fileContextsPath ctx p]]\<rparr>,
                   True)
         else
           (case apexPackaging_name apexType of
              Inl e \<Rightarrow> Inl e
            | Inr name \<Rightarrow>
                Inr (a1\<lparr>a_bundleModuleFile :=
                           Some (PathForModuleOut ctx [ModuleName ctx @ suffix @ ''-base.zip'']),
                         ctx_Build := ctx_Build a1 @
                           [apexRuleParams ctx p (a_filesInfo a) keyFile pubKeyFile name suffix,
                            apexProtoConvertParams ctx suffix,
                            apexBundleParams ctx suffix]\<rparr>,
                     False)))"

text \<open>The zip branch of \<open>buildUnflattenedApex\<close>.\<close>

definition zipPayload ::
  "moduleContext \<Rightarrow> apexBundleProperties \<Rightarrow> apexPackaging \<Rightarrow> string \<Rightarrow> genState
     \<Rightarrow> panic + (genState \<times> bool)" where
  "zipPayload ctx p apexType suffix a =
     (case apexPackaging_name apexType of
        Inl e \<Rightarrow> Inl e
      | Inr name \<Rightarrow>
          Inr (a\<lparr>ctx_Build := ctx_Build a @
                   [zipApexRuleParams ctx p (a_filesInfo a) name suffix]\<rparr>,
               False))"

text \<open>
  \<open>buildUnflattenedApex\<close>. A panic (of \<open>suffix()\<close> or \<open>name()\<close>, or of calling \<open>String()\<close>
  on the \<open>nil\<close> path of a certificate that was never assigned) ends the generation.
\<close>

definition buildUnflattenedApex ::
  "moduleContext \<Rightarrow> apexBundleProperties \<Rightarrow> path \<Rightarrow> path option \<Rightarrow> Certificate option
     \<Rightarrow> apexPackaging \<Rightarrow> genState \<Rightarrow> panic + genState" where
  "buildUnflattenedApex ctx p keyFile pubKeyFile certificate apexType a =
     (case apexPackaging_suffix apexType of
        Inl e \<Rightarrow> Inl e
      | Inr suffix \<Rightarrow>
          (case (if apexPackaging_image apexType
                 then imagePayload ctx p keyFile pubKeyFile apexType suffix a
                 else zipPayload ctx p apexType suffix a) of
             Inl e \<Rightarrow> Inl e
           | Inr (a1, returned) \<Rightarrow>
               if returned then Inr a1
               else
                 (case signingCertificate ctx p certificate of
                    None \<Rightarrow> Inl NilPath
                  | Some c \<Rightarrow>
                      (let a2 = a1\<lparr>a_outputFiles :=
                                     (a_outputFiles a1)
                                       (apexType \<mapsto> PathForModuleOut ctx [ModuleName ctx @ suffix]),
                                   ctx_Build := ctx_Build a1 @ [signapkParams ctx suffix c]\<rparr>
                       in if installable p \<and> \<not> FlattenApex ctx
                          then Inr (a2\<lparr>ctx_InstallFile :=
                                         ctx_InstallFile a2 @ [unflattenedInstall ctx suffix]\<rparr>)
                          else Inr a2))))"

text \<open>
  The entry that \<open>buildFlattenedApex\<close> appends to the file list for the copied manifest,
  the rule that copies it, and the installation of one file of the flattened bundle.
\<close>

definition manifestEntry :: "moduleContext \<Rightarrow> apexFile" where
  "manifestEntry ctx =
     \<lparr>builtFile = PathForModuleOut ctx [''apex_manifest.json''],
      moduleName = ModuleName ctx @ ''.apex_manifest.json'',
      installDir = ''.'', fileClass = etc, fileModule = None, symlinks = []\<rparr>"

definition copyManifestParams :: "moduleContext \<Rightarrow> apexBundleProperties \<Rightarrow> BuildParams" where
  "copyManifestParams ctx p =
     \<lparr>Rule = Cp, Description = [], Output = PathForModuleOut ctx [''apex_manifest.json''],
      Input = Some (manifestPath ctx p), Implicits = [], Args = []\<rparr>"

definition flattenedInstall :: "moduleContext \<Rightarrow> apexFile \<Rightarrow> InstallFile" where
  "flattenedInstall ctx fi =
     \<lparr>install_path =
        PathForModuleInstall ctx [filepath_Join [''apex'', ModuleName ctx, installDir fi]],
      install_name = filepath_Base (builtFile fi),
      install_src = builtFile fi\<rparr>"

definition buildFlattenedApex :: "moduleContext \<Rightarrow> apexBundleProperties \<Rightarrow> genState \<Rightarrow> genState" where
  "buildFlattenedApex ctx p a =
     (if installable p then
        (let a1 = a\<lparr>ctx_Build := ctx_Build a @ [copyManifestParams ctx p],
                   a_filesInfo := a_filesInfo a @ [manifestEntry ctx]\<rparr>
         in if FlattenApex ctx
            then a1\<lparr>ctx_InstallFile :=
                      ctx_InstallFile a1 @ map (flattenedInstall ctx) (a_filesInfo a1)\<rparr>
            else a1)
      else a)"

text \<open>The module that stands for the bundle itself, as the parent of its direct dependencies.\<close>

definition thisModule :: "moduleContext \<Rightarrow> module" where
  "thisModule ctx =
     \<lparr>module_Name = ModuleName ctx, module_impl = ApexBundle, ApexModule = False,
      CanHaveApexVariants = False, IsInstallableToApex = False\<rparr>"

text \<open>The walk of \<open>GenerateAndroidBuildActions\<close> over the dependencies \<open>deps\<close> of the bundle.\<close>

definition collectDeps :: "moduleContext \<Rightarrow> apexBundleProperties \<Rightarrow> dep list \<Rightarrow> walkState" where
  "collectDeps ctx p deps =
     snd (WalkDeps
            (collectVisit (\<not> Bool (Ignore_system_library_special_case p)) (Debuggable ctx))
            (thisModule ctx) deps
            ([], \<lparr>w_filesInfo = [], w_keyFile = None, w_pubKeyFile = None,
                   w_certificate = None, w_errors = []\<rparr>))"

text \<open>Post-walk normalization: remove duplicates, sort, prepend the name of the bundle.\<close>

definition normalize :: "moduleContext \<Rightarrow> apexFile list \<Rightarrow> apexFile list" where
  "normalize ctx fs = prependApexName (ModuleName ctx) (sortFilesInfo (removeDup fs))"

text \<open>
  The part of \<open>GenerateAndroidBuildActions\<close> after the file list is assigned: the zip
  payload, then the image payload and the flattened bundle.
\<close>

definition buildPayloads ::
  "moduleContext \<Rightarrow> apexBundleProperties \<Rightarrow> path \<Rightarrow> path option \<Rightarrow> Certificate option
     \<Rightarrow> genState \<Rightarrow> panic + genState" where
  "buildPayloads ctx p keyFile pubKeyFile certificate a =
     (case (if apexPackaging_zip (a_apexTypes a)
            then buildUnflattenedApex ctx p keyFile pubKeyFile certificate zipApex a
            else Inr a) of
        Inl e \<Rightarrow> Inl e
      | Inr a1 \<Rightarrow>
          if apexPackaging_image (a_apexTypes a1)
          then (case buildUnflattenedApex ctx p keyFile pubKeyFile certificate imageApex a1 of
                  Inl e \<Rightarrow> Inl e
                | Inr a2 \<Rightarrow> Inr (buildFlattenedApex ctx p a2))
          else Inr a1)"

text \<open>
  The format of the error for a payload type that is not known, with double quotes
  around \<open>image\<close>, \<open>zip\<close> and \<open>both\<close>.
\<close>

definition quoted :: "string \<Rightarrow> string" where
  "quoted s = CHR 0x22 # s @ [CHR 0x22]"

definition payloadTypeFormat :: string where
  "payloadTypeFormat =
     ''%q is not one of '' @ quoted ''image'' @ '', '' @ quoted ''zip'' @ '', or ''
     @ quoted ''both'' @ ''.''"

text \<open>
  \<open>GenerateAndroidBuildActions\<close> of a bundle with the properties \<open>p\<close> and the dependencies
  \<open>deps\<close>, from a new bundle: the state of the bundle and of the context at its end, or
  the panic that ended it.
\<close>

definition GenerateAndroidBuildActions ::
  "moduleContext \<Rightarrow> apexBundleProperties \<Rightarrow> dep list \<Rightarrow> panic + genState" where
  "GenerateAndroidBuildActions ctx p deps =
     (let a = newBundle;
          payload = Payload_type p
      in if payload \<noteq> None \<and> payload \<noteq> Some ''image'' \<and> payload \<noteq> Some ''zip''
            \<and> payload \<noteq> Some ''both''
         then Inr (a\<lparr>ctx_errors := ctx_errors a @
                      [PropertyErrorf ''type''
                         payloadTypeFormat [String payload]]\<rparr>)
         else
           (let a1 = a\<lparr>a_apexTypes :=
                        (if payload = None \<or> payload = Some ''image'' then imageApex
                         else if payload = Some ''zip'' then zipApex else both)\<rparr>;
                w = collectDeps ctx p deps;
                a2 = a1\<lparr>ctx_errors := ctx_errors a1 @ w_errors w,
                        a_flattened := (FlattenApex ctx \<and> \<not> UnbundledBuild ctx)\<rparr>
            in case w_keyFile w of
                 None \<Rightarrow>
                   Inr (a2\<lparr>ctx_errors := ctx_errors a2 @
                            [PropertyErrorf ''key'' ''private_key for %q could not be found''
                               [String (Key p)]]\<rparr>)
               | Some k \<Rightarrow>
                   buildPayloads ctx p k (w_pubKeyFile w) (w_certificate w)
                     (a2\<lparr>a_installDir := PathForModuleInstall ctx [''apex''],
                         a_filesInfo := normalize ctx (w_filesInfo w)\<rparr>)))"

section \<open>Notions used in the statements\<close>

text \<open>
  The two requests of the \<open>prefer32\<close> bucket for a target: the shared libraries of the
  bucket, with the variations for the architecture of the target, the image, shared
  linking and the empty version, and the binaries of the bucket, with the variations for
  the architecture and the image. The image variation is \<open>vendor\<close> for a bundle with
  \<open>use_vendor\<close> when the device has a VNDK version, and \<open>core\<close> otherwise.
\<close>

definition prefer32Deps :: "depsContext \<Rightarrow> apexBundleProperties \<Rightarrow> target \<Rightarrow> depRequest list" where
  "prefer32Deps config p t =
     [AddFarVariationDependencies
        [(''arch'', target_String t),
         (''image'', if VndkVersion config \<noteq> [] \<and> Use_vendor p = Some True
                     then ''vendor'' else ''core''),
         (''link'', ''shared''), (''version'', [])]
        sharedLibTag (Native_shared_libs (Prefer32 (Multilib p))),
      AddFarVariationDependencies
        [(''arch'', target_String t),
         (''image'', if VndkVersion config \<noteq> [] \<and> Use_vendor p = Some True
                     then ''vendor'' else ''core'')]
        executableTag (Binaries (Prefer32 (Multilib p)))]"

text \<open>
  The same properties with an empty \<open>prefer32\<close> bucket: the properties of the bundle, a
  multilib block, and the target-specific properties.
\<close>

definition withoutPrefer32 :: "apexBundleProperties \<Rightarrow> apexBundleProperties" where
  "withoutPrefer32 p =
     p\<lparr>Multilib := (Multilib p)\<lparr>Prefer32 := \<lparr>Native_shared_libs = [], Binaries = []\<rparr>\<rparr>\<rparr>"

definition withoutPrefer32Multilib :: "apexMultilibProperties \<Rightarrow> apexMultilibProperties" where
  "withoutPrefer32Multilib m = m\<lparr>Prefer32 := \<lparr>Native_shared_libs = [], Binaries = []\<rparr>\<rparr>"

definition withoutPrefer32Target ::
  "apexTargetBundleProperties \<Rightarrow> apexTargetBundleProperties" where
  "withoutPrefer32Target tp =
     \<lparr>Target_Android = withoutPrefer32Multilib (Target_Android tp),
      Target_Host = withoutPrefer32Multilib (Target_Host tp),
      Target_Linux_bionic = withoutPrefer32Multilib (Target_Linux_bionic tp),
      Target_Linux_glibc = withoutPrefer32Multilib (Target_Linux_glibc tp)\<rparr>"

text \<open>
  The architecture variation of a request, the names it asks for, and the requests of a
  list for one architecture.
\<close>

fun requestArch :: "depRequest \<Rightarrow> string option" where
  "requestArch (AddFarVariationDependencies variations depTag names) = map_of variations ''arch''"
| "requestArch (AddDependency depTag name) = None"

fun requestNames :: "depRequest \<Rightarrow> string list" where
  "requestNames (AddFarVariationDependencies variations depTag names) = names"
| "requestNames (AddDependency depTag name) = [name]"

definition requestsFor :: "string \<Rightarrow> depRequest list \<Rightarrow> depRequest list" where
  "requestsFor arch reqs = filter (\<lambda>r. requestArch r = Some arch) reqs"

text \<open>
  The name lists of the properties other than the \<open>prefer32\<close> and \<open>lib32\<close> buckets: the
  top-level lists, and the buckets \<open>both\<close>, \<open>first\<close> and \<open>lib64\<close>.
\<close>

definition otherBuckets :: "apexBundleProperties \<Rightarrow> string list list" where
  "otherBuckets p =
     [prop_Native_shared_libs p, prop_Binaries p, Prebuilts p, Java_libs p,
      Native_shared_libs (Both (Multilib p)), Binaries (Both (Multilib p)),
      Native_shared_libs (First (Multilib p)), Binaries (First (Multilib p)),
      Native_shared_libs (Lib64 (Multilib p)), Binaries (Lib64 (Multilib p))]"




text \<open>A key dependency that resolves to a key module with a private key file.\<close>

definition resolvesKey :: "dep \<Rightarrow> bool" where
  "resolvesKey d =
     (edgeTag d = keyTag
      \<and> (case module_impl (edgeChild d) of ApexKey key \<Rightarrow> private_key_file key \<noteq> None
          | _ \<Rightarrow> False))"

text \<open>
  The variables of the walk other than the file list: the key file, the public key
  file, the certificate and the errors.
\<close>

definition keyPart ::
  "walkState \<Rightarrow> path option \<times> path option \<times> Certificate option \<times> ctxError list" where
  "keyPart s = (w_keyFile s, w_pubKeyFile s, w_certificate s, w_errors s)"

text \<open>The payload types that generation accepts.\<close>

definition knownPayloadType :: "apexBundleProperties \<Rightarrow> bool" where
  "knownPayloadType p =
     (Payload_type p = None \<or> Payload_type p = Some ''image'' \<or> Payload_type p = Some ''zip''
      \<or> Payload_type p = Some ''both'')"

text \<open>The payload value that generation assigns for an accepted payload type.\<close>

definition payloadType :: "apexBundleProperties \<Rightarrow> apexPackaging" where
  "payloadType p =
     (if Payload_type p = None \<or> Payload_type p = Some ''image'' then imageApex
      else if Payload_type p = Some ''zip'' then zipApex else both)"

text \<open>The security-label file of the bundle exists.\<close>

definition fileContextsExist :: "moduleContext \<Rightarrow> apexBundleProperties \<Rightarrow> bool" where
  "fileContextsExist ctx p = (fileContextsPath ctx p \<in> set (ExistingSources ctx))"

text \<open>
  The bundle after the walk and the normalization of the file list, before the
  payloads are built.
\<close>

definition normalizedBundle :: "moduleContext \<Rightarrow> apexBundleProperties \<Rightarrow> dep list \<Rightarrow> genState" where
  "normalizedBundle ctx p deps =
     newBundle\<lparr>a_apexTypes := payloadType p,
               a_installDir := PathForModuleInstall ctx [''apex''],
               a_filesInfo := normalize ctx (w_filesInfo (collectDeps ctx p deps)),
               a_flattened := (FlattenApex ctx \<and> \<not> UnbundledBuild ctx),
               ctx_errors := w_errors (collectDeps ctx p deps)\<rparr>"

text \<open>
  The build rules of the payloads, in the order of their creation, for the file list
  \<open>files\<close>, the key files and the signing certificate \<open>cert\<close>: those of the zip payload,
  then those of the image payload (up to the access-mode manifest only when the
  security-label file is missing) with the rule that copies the manifest.
\<close>

definition payloadBuilds ::
  "moduleContext \<Rightarrow> apexBundleProperties \<Rightarrow> apexPackaging \<Rightarrow> apexFile list \<Rightarrow> path
     \<Rightarrow> path option \<Rightarrow> Certificate option \<Rightarrow> BuildParams list" where
  "payloadBuilds ctx p ty files k pk cert =
     (if apexPackaging_zip ty
      then zipApexRuleParams ctx p files ''zip'' ''.zipapex''
           # map (signapkParams ctx ''.zipapex'') (case cert of None \<Rightarrow> [] | Some c \<Rightarrow> [c])
      else [])
     @ (if apexPackaging_image ty
        then generateFsConfigParams ctx files
             # (if fileContextsExist ctx p
                then [apexRuleParams ctx p files k pk ''image'' ''.apex'',
                      apexProtoConvertParams ctx ''.apex'', apexBundleParams ctx ''.apex'']
                     @ map (signapkParams ctx ''.apex'') (case cert of None \<Rightarrow> [] | Some c \<Rightarrow> [c])
                else [])
             @ (if installable p then [copyManifestParams ctx p] else [])
        else [])"

text \<open>
  The files that the payloads install: the unflattened payloads when the bundle is
  installable and flattened installation is not selected, and the files of the flattened
  bundle, from the final file list, when it is installable, has an image payload and
  flattened installation is selected.
\<close>

definition payloadInstalls ::
  "moduleContext \<Rightarrow> apexBundleProperties \<Rightarrow> apexPackaging \<Rightarrow> apexFile list \<Rightarrow> InstallFile list" where
  "payloadInstalls ctx p ty files =
     (if installable p \<and> \<not> FlattenApex ctx
      then (if apexPackaging_zip ty then [unflattenedInstall ctx ''.zipapex''] else [])
           @ (if apexPackaging_image ty \<and> fileContextsExist ctx p
              then [unflattenedInstall ctx ''.apex''] else [])
      else [])
     @ (if installable p \<and> FlattenApex ctx \<and> apexPackaging_image ty
        then map (flattenedInstall ctx) (files @ [manifestEntry ctx]) else [])"

text \<open>The state that \<open>buildPayloads\<close> yields from the state \<open>a\<close> when it does not panic.\<close>

definition payloadsResult ::
  "moduleContext \<Rightarrow> apexBundleProperties \<Rightarrow> path \<Rightarrow> path option \<Rightarrow> Certificate option
     \<Rightarrow> genState \<Rightarrow> genState" where
  "payloadsResult ctx p k pk cert a =
     a\<lparr>a_bundleModuleFile :=
         (if apexPackaging_image (a_apexTypes a) \<and> fileContextsExist ctx p
          then Some (PathForModuleOut ctx [ModuleName ctx @ ''.apex-base.zip''])
          else a_bundleModuleFile a),
       a_outputFiles :=
         (\<lambda>ty. if ty = imageApex \<and> apexPackaging_image (a_apexTypes a) \<and> fileContextsExist ctx p
               then Some (PathForModuleOut ctx [ModuleName ctx @ ''.apex''])
               else if ty = zipApex \<and> apexPackaging_zip (a_apexTypes a)
               then Some (PathForModuleOut ctx [ModuleName ctx @ ''.zipapex''])
               else a_outputFiles a ty),
       a_filesInfo :=
         a_filesInfo a
         @ (if apexPackaging_image (a_apexTypes a) \<and> installable p then [manifestEntry ctx] else []),
       ctx_Build :=
         ctx_Build a @ payloadBuilds ctx p (a_apexTypes a) (a_filesInfo a) k pk cert,
       ctx_InstallFile :=
         ctx_InstallFile a @ payloadInstalls ctx p (a_apexTypes a) (a_filesInfo a),
       ctx_errors :=
         ctx_errors a
         @ (if apexPackaging_image (a_apexTypes a) \<and> \<not> fileContextsExist ctx p
            then [ModuleErrorf ''Cannot find file_contexts file: %q'' [fileContextsPath ctx p]]
            else [])\<rparr>"

text \<open>A payload is signed: the zip payload, or the image payload when its labels exist.\<close>

definition signsPayload :: "moduleContext \<Rightarrow> apexBundleProperties \<Rightarrow> apexPackaging \<Rightarrow> bool" where
  "signsPayload ctx p ty =
     (apexPackaging_zip ty \<or> (apexPackaging_image ty \<and> fileContextsExist ctx p))"

text \<open>The paths of the final file list of a generation that has not panicked.\<close>

definition finalPaths :: "panic + genState \<Rightarrow> path list option" where
  "finalPaths r = (case r of Inl e \<Rightarrow> None | Inr a \<Rightarrow> Some (map builtFile (a_filesInfo a)))"

text \<open>
  The state of a generation apart from what it installs: without the installed files
  and the \<open>flattened\<close> flag.
\<close>

definition withoutInstalls :: "genState \<Rightarrow> genState" where
  "withoutInstalls a = a\<lparr>ctx_InstallFile := [], a_flattened := False\<rparr>"

text \<open>
  What a generation that has not panicked leaves for the install step: the \<open>flattened\<close>
  flag of the bundle and the installed files.
\<close>

definition installed :: "panic + genState \<Rightarrow> (bool \<times> InstallFile list) option" where
  "installed r =
     (case r of Inl e \<Rightarrow> None | Inr a \<Rightarrow> Some (a_flattened a, ctx_InstallFile a))"





section \<open>Example configurations\<close>

text \<open>A 64-bit and a 32-bit target, and target lists with the first and with both.\<close>

definition ex_arm64 :: target where
  "ex_arm64 = \<lparr>target_String = ''android_arm64'', target_Multilib = ''lib64'',
               target_Abi = [''arm64-v8a'']\<rparr>"

definition ex_arm :: target where
  "ex_arm = \<lparr>target_String = ''android_arm'', target_Multilib = ''lib32'',
             target_Abi = [''armeabi-v7a'']\<rparr>"

definition ex_deps64 :: depsContext where
  "ex_deps64 = \<lparr>MultiTargets = [ex_arm64], OsClassDevice = True, OsBionic = True,
                 VndkVersion = []\<rparr>"

definition ex_deps6432 :: depsContext where
  "ex_deps6432 = \<lparr>MultiTargets = [ex_arm64, ex_arm], OsClassDevice = True, OsBionic = True,
                   VndkVersion = []\<rparr>"

definition ex_none :: apexNativeDependencies where
  "ex_none = \<lparr>Native_shared_libs = [], Binaries = []\<rparr>"

definition ex_multilib_none :: apexMultilibProperties where
  "ex_multilib_none =
     \<lparr>First = ex_none, Both = ex_none, Prefer32 = ex_none, Lib32 = ex_none, Lib64 = ex_none\<rparr>"

definition ex_target_props :: apexTargetBundleProperties where
  "ex_target_props =
     \<lparr>Target_Android = ex_multilib_none, Target_Host = ex_multilib_none,
      Target_Linux_bionic = ex_multilib_none, Target_Linux_glibc = ex_multilib_none\<rparr>"

text \<open>A bundle named \<open>myapex\<close> with the key \<open>myapex.key\<close> and defaults otherwise.\<close>

definition ex_props :: apexBundleProperties where
  "ex_props =
     \<lparr>Manifest = None, File_contexts = None, prop_Native_shared_libs = [],
      prop_Binaries = [], Java_libs = [], Prebuilts = [], Key = Some ''myapex.key'',
      Payload_type = None, Certificate = None, Installable = None, Use_vendor = None,
      Ignore_system_library_special_case = None, Multilib = ex_multilib_none\<rparr>"

text \<open>The same bundle with a library and a binary in the \<open>prefer32\<close> bucket.\<close>

definition ex_props_prefer32 :: apexBundleProperties where
  "ex_props_prefer32 =
     ex_props\<lparr>Multilib := ex_multilib_none
                 \<lparr>Prefer32 := \<lparr>Native_shared_libs = [''libp''], Binaries = [''binp'']\<rparr>\<rparr>\<rparr>"

text \<open>
  The bundle \<open>myapex\<close> in the directory \<open>apex\<close>, built under \<open>out\<close> for a debug build,
  not flattened; its security-label file exists.
\<close>

definition ex_ctx :: moduleContext where
  "ex_ctx =
     \<lparr>MultiTargets = [ex_arm64, ex_arm], OsClassDevice = True, OsBionic = True,
      VndkVersion = [],
      ModuleName = ''myapex'', ModuleDir = ''apex'', ModuleSubDir = ''common'',
      BuildDir = ''out'', InstallRoot = ''out/system'',
      Debuggable = True, FlattenApex = False, UnbundledBuild = False,
      PrebuiltOS = ''linux-x86'', GOOS = ''linux'',
      DefaultAppCertificateDir = ''security'',
      DefaultAppCertificate = \<lparr>Pem = ''security/testkey.x509.pem'',
                               Key_file = ''security/testkey.pk8''\<rparr>,
      OverrideManifestPackageName = None,
      ExistingSources = [''system/sepolicy/apex/myapex-file_contexts'']\<rparr>"

text \<open>The module of the bundle \<open>myapex\<close>.\<close>

definition ex_bundle :: module where
  "ex_bundle =
     \<lparr>module_Name = ''myapex'', module_impl = ApexBundle, ApexModule = False,
      CanHaveApexVariants = False, IsInstallableToApex = False\<rparr>"

text \<open>A key module that is not installed, with both of its key files.\<close>

definition ex_key :: module where
  "ex_key =
     \<lparr>module_Name = ''myapex.key'',
      module_impl = ApexKey \<lparr>private_key_file = Some ''apex/testkey.pem'',
                              public_key_file = Some ''apex/testkey.avbpubkey'',
                              key_installable = False\<rparr>,
      ApexModule = False, CanHaveApexVariants = False, IsInstallableToApex = False\<rparr>"

text \<open>A native library for the 64-bit target, and a library that it links to.\<close>

definition ex_libfoo :: module where
  "ex_libfoo =
     \<lparr>module_Name = ''libfoo'',
      module_impl = CcModule \<lparr>cc_Multilib = ''lib64'', cc_Native = True, cc_ArchType = ''arm64'',
                               cc_RelativeInstallPath = [],
                               cc_OutputFile = ''out/.intermediates/lib/libfoo/arm64/libfoo.so'',
                               cc_Symlinks = [], cc_IsStubs = False,
                               cc_HasStubsVariants = False\<rparr>,
      ApexModule = True, CanHaveApexVariants = True, IsInstallableToApex = True\<rparr>"

definition ex_libbar :: module where
  "ex_libbar =
     \<lparr>module_Name = ''libbar'',
      module_impl = CcModule \<lparr>cc_Multilib = ''lib64'', cc_Native = True, cc_ArchType = ''arm64'',
                               cc_RelativeInstallPath = [],
                               cc_OutputFile = ''out/.intermediates/lib/libbar/arm64/libbar.so'',
                               cc_Symlinks = [], cc_IsStubs = False,
                               cc_HasStubsVariants = False\<rparr>,
      ApexModule = True, CanHaveApexVariants = True, IsInstallableToApex = True\<rparr>"

text \<open>A script binary \<open>tool\<close> that is installed in the subdirectory \<open>sub\<close> of \<open>bin\<close>.\<close>

definition ex_tool :: module where
  "ex_tool =
     \<lparr>module_Name = ''tool'',
      module_impl = ShBinary \<lparr>sh_SubDir = ''sub'',
                               sh_OutputFile = ''out/.intermediates/sh/tool/arm64/tool''\<rparr>,
      ApexModule = False, CanHaveApexVariants = False, IsInstallableToApex = False\<rparr>"


text \<open>Dependencies without a key: one library.\<close>

definition ex_deps_no_key :: "dep list" where
  "ex_deps_no_key = [Dep sharedLibTag ex_libfoo []]"

text \<open>A library and the key.\<close>

definition ex_deps_lib_key :: "dep list" where
  "ex_deps_lib_key = [Dep sharedLibTag ex_libfoo [], Dep keyTag ex_key []]"

text \<open>The library \<open>libfoo\<close> with the library \<open>libbar\<close> below it.\<close>

definition ex_deps_tree :: "dep list" where
  "ex_deps_tree = [Dep sharedLibTag ex_libfoo [Dep otherTag ex_libbar []]]"


text \<open>The script binary \<open>tool\<close> and the key.\<close>

definition ex_deps_tool :: "dep list" where
  "ex_deps_tool = [Dep executableTag ex_tool [], Dep keyTag ex_key []]"

section \<open>Properties\<close>

subsection \<open>The panics of \<open>suffix()\<close> and \<open>name()\<close>\<close>

lemma imagePayload_no_panic:
  "apexType \<noteq> both \<Longrightarrow>
   imagePayload ctx p keyFile pubKeyFile apexType suffix a \<noteq> Inl e"
  by (cases apexType)
     (auto simp: imagePayload_def Let_def apexPackaging_name_def split: prod.splits)

lemma zipPayload_no_panic:
  "apexType \<noteq> both \<Longrightarrow> zipPayload ctx p apexType suffix a \<noteq> Inl e"
  by (cases apexType) (auto simp: zipPayload_def apexPackaging_name_def)

lemma buildUnflattenedApex_panic:
  assumes "apexType \<noteq> both"
    and "buildUnflattenedApex ctx p keyFile pubKeyFile certificate apexType a = Inl e"
  shows "e = NilPath"
proof (cases e)
  case NilPath then show ?thesis .
next
  case MustBeEitherZipOrImage
  with assms show ?thesis
    using imagePayload_no_panic[OF assms(1)] zipPayload_no_panic[OF assms(1)]
    by (cases apexType)
       (auto simp: buildUnflattenedApex_def Let_def apexPackaging_suffix_def
             split: sum.splits prod.splits if_splits option.splits)
qed

lemma buildPayloads_panic:
  "buildPayloads ctx p keyFile pubKeyFile certificate a = Inl e \<Longrightarrow> e = NilPath"
  by (auto simp: buildPayloads_def split: sum.splits if_splits
           dest: buildUnflattenedApex_panic[rotated])

text \<open>
  C10. \<open>suffix()\<close> and \<open>name()\<close> panic on the payload value \<open>both\<close>, and generation
  never ends in that panic, whatever the payload type, the properties and the
  dependencies of the bundle are: it calls \<open>buildUnflattenedApex\<close>, the only caller of the
  two accessors, with \<open>zipApex\<close> and with \<open>imageApex\<close> only.
\<close>

theorem suffix_name_panic_unreachable:
  "apexPackaging_suffix both = Inl MustBeEitherZipOrImage
   \<and> apexPackaging_name both = Inl MustBeEitherZipOrImage
   \<and> (\<forall>ctx p deps. GenerateAndroidBuildActions ctx p deps \<noteq> Inl MustBeEitherZipOrImage)"
proof -
  have "GenerateAndroidBuildActions ctx p deps \<noteq> Inl MustBeEitherZipOrImage" for ctx p deps
  proof
    assume h: "GenerateAndroidBuildActions ctx p deps = Inl MustBeEitherZipOrImage"
    then obtain k pk c a where "buildPayloads ctx p k pk c a = Inl MustBeEitherZipOrImage"
      by (auto simp: GenerateAndroidBuildActions_def Let_def split: if_splits option.splits)
    from buildPayloads_panic[OF this] show False by simp
  qed
  then show ?thesis
    by (simp add: apexPackaging_suffix_def apexPackaging_name_def)
qed

subsection \<open>Multilib policy: the \<open>prefer32\<close> bucket\<close>

lemma has32BitTarget_eq:
  "has32BitTarget ts acc = (acc \<or> (\<exists>u\<in>set ts. target_Multilib u = ''lib32''))"
  by (induction ts arbitrary: acc) auto

lemma depsForTargets_nth:
  "i < length ts \<Longrightarrow>
   set (depsForTarget c p h (k + i) (ts ! i)) \<subseteq> set (depsForTargets c p h k ts)"
proof (induction ts arbitrary: i k)
  case Nil
  then show ?case by simp
next
  case (Cons t ts)
  show ?case
  proof (cases i)
    case 0
    then show ?thesis by simp
  next
    case (Suc j)
    with Cons.prems have "j < length ts" by simp
    from Cons.IH[OF this, of "Suc k"] Suc show ?thesis by auto
  qed
qed

lemma DepsMutator_requests:
  "set (depsForTargets ctx (combineProperties ctx tp p0)
          (has32BitTarget (MultiTargets ctx) False) 0 (MultiTargets ctx))
     \<subseteq> set (snd (DepsMutator ctx tp p0))"
  by (auto simp: DepsMutator_def Let_def)

lemma combineProperties_withoutPrefer32:
  "combineProperties ctx (withoutPrefer32Target tp) (withoutPrefer32 p0)
     = withoutPrefer32 (combineProperties ctx tp p0)"
  by (simp add: combineProperties_def withoutPrefer32Target_def withoutPrefer32_def
      withoutPrefer32Multilib_def AppendProperties_def appendNative_def Let_def)

lemma prefer32Deps_requested:
  "target_Multilib t = ''lib32'' \<or> (\<not> h \<and> target_Multilib t = ''lib64'')
   \<Longrightarrow> set (prefer32Deps c p t) \<subseteq> set (depsForTarget c p h i t)"
  by (auto simp: depsForTarget_def prefer32Deps_def addDependenciesForNativeModules_def
      getImageVariation_def Bool_def split: option.splits)

lemma requestArch_depsForTarget:
  "r \<in> set (depsForTarget c p h i t) \<Longrightarrow> requestArch r = Some (target_String t)"
  by (auto simp: depsForTarget_def addDependenciesForNativeModules_def split: if_splits)

lemma requestsFor_depsForTarget_other:
  "target_String t \<noteq> a \<Longrightarrow> requestsFor a (depsForTarget c p h i t) = []"
  unfolding requestsFor_def filter_empty_conv
  using requestArch_depsForTarget by fastforce

lemma depsForTarget_withoutPrefer32:
  "target_Multilib t \<noteq> ''lib32'' \<Longrightarrow>
   depsForTarget c (withoutPrefer32 p) True i t = depsForTarget c p True i t"
  by (simp add: depsForTarget_def withoutPrefer32_def getImageVariation_def)

lemma requestsFor_depsForTargets:
  "\<forall>u\<in>set ts. target_Multilib u = ''lib32'' \<longrightarrow> target_String u \<noteq> a \<Longrightarrow>
   requestsFor a (depsForTargets c (withoutPrefer32 p) True i ts)
     = requestsFor a (depsForTargets c p True i ts)"
proof (induction ts arbitrary: i)
  case Nil
  then show ?case by simp
next
  case (Cons t ts)
  have "requestsFor a (depsForTarget c (withoutPrefer32 p) True i t)
          = requestsFor a (depsForTarget c p True i t)"
  proof (cases "target_Multilib t = ''lib32''")
    case True
    with Cons.prems have "target_String t \<noteq> a" by simp
    then show ?thesis by (simp add: requestsFor_depsForTarget_other)
  next
    case False
    then show ?thesis by (simp add: depsForTarget_withoutPrefer32)
  qed
  moreover have "requestsFor a (depsForTargets c (withoutPrefer32 p) True (Suc i) ts)
          = requestsFor a (depsForTargets c p True (Suc i) ts)"
    using Cons by simp
  ultimately show ?case by (simp add: requestsFor_def)
qed

lemma requestNames_depsForTarget:
  "r \<in> set (depsForTarget c p True i t) \<Longrightarrow> target_Multilib t \<noteq> ''lib32'' \<Longrightarrow>
   requestNames r \<in> set (otherBuckets p)"
  by (auto simp: depsForTarget_def addDependenciesForNativeModules_def otherBuckets_def
      split: if_splits)

lemma requestNames_depsForTargets:
  "r \<in> set (depsForTargets c p True i ts) \<Longrightarrow> requestArch r = Some a \<Longrightarrow>
   \<forall>u\<in>set ts. target_Multilib u = ''lib32'' \<longrightarrow> target_String u \<noteq> a \<Longrightarrow>
   requestNames r \<in> set (otherBuckets p)"
proof (induction ts arbitrary: i)
  case Nil
  then show ?case by simp
next
  case (Cons t ts)
  from Cons.prems(1) consider "r \<in> set (depsForTarget c p True i t)"
    | "r \<in> set (depsForTargets c p True (Suc i) ts)" by auto
  then show ?case
  proof cases
    case 1
    from requestArch_depsForTarget[OF 1] Cons.prems(2) have "target_String t = a" by simp
    with Cons.prems(3) have "target_Multilib t \<noteq> ''lib32''" by auto
    from requestNames_depsForTarget[OF 1 this] show ?thesis .
  next
    case 2
    from Cons.IH[OF 2 Cons.prems(2)] Cons.prems(3) show ?thesis by simp
  qed
qed

lemma DepsMutator_requests_eq:
  "snd (DepsMutator ctx tp p0)
     = (let p = combineProperties ctx tp p0
        in depsForTargets ctx p (has32BitTarget (MultiTargets ctx) False) 0 (MultiTargets ctx)
           @ [AddFarVariationDependencies [(''arch'', ''android_common'')] javaLibTag (Java_libs p)]
           @ (if String (Key p) = [] then []
              else AddDependency keyTag (String (Key p))
                   # (if SrcIsModule (String (Certificate p)) \<noteq> []
                      then [AddDependency certificateTag (SrcIsModule (String (Certificate p)))]
                      else [])))"
  by (simp add: DepsMutator_def Let_def)

lemma depsForTargets_concat:
  "depsForTargets c p h i ts
     = concat (map (\<lambda>(k, u). depsForTarget c p h k u) (enumerate i ts))"
  by (induction ts arbitrary: i) simp_all

text \<open>
  C1. Let \<open>t\<close> be a target of the bundle's target list, \<open>p\<close> the combined properties and
  \<open>reqs\<close> all the requests that \<open>DepsMutator\<close> makes. The flag of its first loop is true
  exactly when the list has a 32-bit target. The requests are those of the iterations
  for the targets, in the order of the list, then the request for the java libraries,
  then requests without an architecture (for the key and the certificate). When the list
  has no 32-bit target and \<open>t\<close> is a 64-bit target, and when \<open>t\<close> is a 32-bit target,
  \<open>reqs\<close> has the two requests of the \<open>prefer32\<close> bucket for \<open>t\<close>: its shared libraries
  and its binaries, for the architecture of \<open>t\<close>. When the list has a 32-bit target and
  \<open>t\<close> is a 64-bit target, the iteration for \<open>t\<close> makes the requests that it makes with
  an empty \<open>prefer32\<close> bucket; and (when the architecture variation of \<open>t\<close> is not also
  that of a 32-bit target of the list) all the requests of \<open>DepsMutator\<close> for the
  architecture of \<open>t\<close> are those that it makes with an empty \<open>prefer32\<close> bucket, in the
  properties of the bundle and in its target-specific properties, and each of them asks
  for the names of a property other than the \<open>prefer32\<close> bucket: nothing is requested
  for that bucket.
\<close>

theorem prefer32_policy:
  assumes "t \<in> set (MultiTargets ctx)"
  shows "let targets = MultiTargets ctx;
             p = combineProperties ctx tp p0;
             has32 = (\<exists>u\<in>set targets. target_Multilib u = ''lib32'');
             reqs = snd (DepsMutator ctx tp p0);
             reqs64 = requestsFor (target_String t) reqs
         in has32BitTarget targets False = has32
          \<and> (\<exists>rest. reqs = concat (map (\<lambda>(i, u). depsForTarget ctx p has32 i u)
                                      (enumerate 0 targets))
                            @ AddFarVariationDependencies [(''arch'', ''android_common'')]
                                javaLibTag (Java_libs p)
                            # rest
                     \<and> (\<forall>r\<in>set rest. requestArch r = None))
          \<and> (\<not> has32 \<and> target_Multilib t = ''lib64'' \<longrightarrow>
                set (prefer32Deps ctx p t) \<subseteq> set reqs)
          \<and> (has32 \<and> target_Multilib t = ''lib32'' \<longrightarrow>
                set (prefer32Deps ctx p t) \<subseteq> set reqs)
          \<and> (has32 \<and> target_Multilib t = ''lib64'' \<longrightarrow>
                (\<forall>i. depsForTarget ctx p has32 i t
                       = depsForTarget ctx (withoutPrefer32 p) has32 i t))
          \<and> (has32 \<and> target_Multilib t = ''lib64''
               \<and> (\<forall>u\<in>set targets. target_Multilib u = ''lib32''
                                    \<longrightarrow> target_String u \<noteq> target_String t) \<longrightarrow>
                reqs64 = requestsFor (target_String t)
                           (snd (DepsMutator ctx (withoutPrefer32Target tp) (withoutPrefer32 p0)))
                \<and> (\<forall>r\<in>set reqs64. requestNames r \<in> set (otherBuckets p)))"
proof -
  let ?ts = "MultiTargets ctx"
  let ?p = "combineProperties ctx tp p0"
  let ?h = "has32BitTarget ?ts False"
  let ?a = "target_String t"
  from assms obtain i where i: "i < length ?ts" "?ts ! i = t"
    by (auto simp: in_set_conv_nth)
  have sub: "set (depsForTarget ctx ?p ?h i t) \<subseteq> set (snd (DepsMutator ctx tp p0))"
    using depsForTargets_nth[OF i(1), of ctx ?p ?h 0] i(2) DepsMutator_requests[of ctx tp p0]
    by auto
  have h: "?h = (\<exists>u\<in>set ?ts. target_Multilib u = ''lib32'')"
    by (simp add: has32BitTarget_eq)
  have pos: "set (prefer32Deps ctx ?p t) \<subseteq> set (snd (DepsMutator ctx tp p0))"
    if "target_Multilib t = ''lib32'' \<or> (\<not> ?h \<and> target_Multilib t = ''lib64'')"
    using prefer32Deps_requested[OF that, of ctx ?p i] sub by blast
  have neg: "requestsFor ?a (snd (DepsMutator ctx tp p0))
               = requestsFor ?a (snd (DepsMutator ctx (withoutPrefer32Target tp)
                                        (withoutPrefer32 p0)))
             \<and> (\<forall>r\<in>set (requestsFor ?a (snd (DepsMutator ctx tp p0))).
                   requestNames r \<in> set (otherBuckets ?p))"
    if h1: "?h"
      and d: "\<forall>u\<in>set ?ts. target_Multilib u = ''lib32'' \<longrightarrow> target_String u \<noteq> ?a"
  proof
    have k: "Key (withoutPrefer32 ?p) = Key ?p" "Certificate (withoutPrefer32 ?p) = Certificate ?p"
      "Java_libs (withoutPrefer32 ?p) = Java_libs ?p"
      by (simp_all add: withoutPrefer32_def)
    show "requestsFor ?a (snd (DepsMutator ctx tp p0))
               = requestsFor ?a (snd (DepsMutator ctx (withoutPrefer32Target tp)
                                        (withoutPrefer32 p0)))"
      using requestsFor_depsForTargets[OF d, of ctx ?p 0] h1
      by (simp add: DepsMutator_requests_eq combineProperties_withoutPrefer32 k Let_def
          requestsFor_def)
    show "\<forall>r\<in>set (requestsFor ?a (snd (DepsMutator ctx tp p0))).
                   requestNames r \<in> set (otherBuckets ?p)"
    proof
      fix r assume "r \<in> set (requestsFor ?a (snd (DepsMutator ctx tp p0)))"
      then have r: "r \<in> set (snd (DepsMutator ctx tp p0))" "requestArch r = Some ?a"
        by (simp_all add: requestsFor_def)
      from r(1) consider "r \<in> set (depsForTargets ctx ?p True 0 ?ts)"
        | "r = AddFarVariationDependencies [(''arch'', ''android_common'')] javaLibTag (Java_libs ?p)"
        | "requestArch r = None"
        using h1 by (auto simp: DepsMutator_requests_eq Let_def split: if_splits)
      then show "requestNames r \<in> set (otherBuckets ?p)"
      proof cases
        case 1
        from requestNames_depsForTargets[OF 1 r(2) d] show ?thesis .
      next
        case 2
        then show ?thesis by (simp add: otherBuckets_def)
      next
        case 3
        with r(2) show ?thesis by simp
      qed
    qed
  qed
  have parts: "\<exists>rest. snd (DepsMutator ctx tp p0)
                  = concat (map (\<lambda>(i, u). depsForTarget ctx ?p ?h i u) (enumerate 0 ?ts))
                    @ AddFarVariationDependencies [(''arch'', ''android_common'')]
                        javaLibTag (Java_libs ?p)
                    # rest
                \<and> (\<forall>r\<in>set rest. requestArch r = None)"
    by (simp add: DepsMutator_requests_eq Let_def depsForTargets_concat)
  have iter: "\<forall>i. depsForTarget ctx ?p (\<exists>u\<in>set ?ts. target_Multilib u = ''lib32'') i t
                   = depsForTarget ctx (withoutPrefer32 ?p)
                       (\<exists>u\<in>set ?ts. target_Multilib u = ''lib32'') i t"
    if "\<exists>u\<in>set ?ts. target_Multilib u = ''lib32''" and "target_Multilib t = ''lib64''"
    using that by (simp add: depsForTarget_withoutPrefer32)
  show ?thesis
    unfolding Let_def
    apply (intro conjI)
    subgoal by (rule h)
    subgoal using parts h by simp
    subgoal using pos h by blast
    subgoal using pos h by blast
    subgoal using iter by blast
    subgoal using neg h by blast
    done
qed

theorem prefer32_policy_witness:
  "AddFarVariationDependencies
     [(''arch'', ''android_arm64''), (''image'', ''core''), (''link'', ''shared''), (''version'', [])]
     sharedLibTag [''libp'']
     \<in> set (snd (DepsMutator ex_deps64 ex_target_props ex_props_prefer32))
   \<and> AddFarVariationDependencies [(''arch'', ''android_arm64''), (''image'', ''core'')]
       executableTag [''binp'']
       \<in> set (snd (DepsMutator ex_deps64 ex_target_props ex_props_prefer32))
   \<and> AddFarVariationDependencies
       [(''arch'', ''android_arm''), (''image'', ''core''), (''link'', ''shared''), (''version'', [])]
       sharedLibTag [''libp'']
       \<in> set (snd (DepsMutator ex_deps6432 ex_target_props ex_props_prefer32))
   \<and> AddFarVariationDependencies [(''arch'', ''android_arm''), (''image'', ''core'')]
       executableTag [''binp'']
       \<in> set (snd (DepsMutator ex_deps6432 ex_target_props ex_props_prefer32))
   \<and> requestsFor ''android_arm64'' (snd (DepsMutator ex_deps6432 ex_target_props ex_props_prefer32))
       = requestsFor ''android_arm64''
           (snd (DepsMutator ex_deps6432 (withoutPrefer32Target ex_target_props)
                   (withoutPrefer32 ex_props_prefer32)))
   \<and> list_all (\<lambda>r. requestNames r = [])
       (requestsFor ''android_arm64''
          (snd (DepsMutator ex_deps6432 ex_target_props ex_props_prefer32)))"
proof -
  have t64: "MultiTargets ex_deps64 = [ex_arm64]"
    and t6432: "MultiTargets ex_deps6432 = [ex_arm64, ex_arm]"
    by (simp_all add: ex_deps64_def ex_deps6432_def)
  have m: "target_Multilib ex_arm64 = ''lib64''" "target_Multilib ex_arm = ''lib32''"
    "target_String ex_arm64 = ''android_arm64''" "target_String ex_arm = ''android_arm''"
    by (simp_all add: ex_arm64_def ex_arm_def)
  have p: "combineProperties ex_deps64 ex_target_props ex_props_prefer32 = ex_props_prefer32"
    "combineProperties ex_deps6432 ex_target_props ex_props_prefer32 = ex_props_prefer32"
    by code_simp+
  have b: "set (otherBuckets ex_props_prefer32) = {[]}"
    by code_simp
  have d: "prefer32Deps ex_deps64 ex_props_prefer32 ex_arm64 =
     [AddFarVariationDependencies
     [(''arch'', ''android_arm64''), (''image'', ''core''), (''link'', ''shared''), (''version'', [])]
     sharedLibTag [''libp''], AddFarVariationDependencies [(''arch'', ''android_arm64''), (''image'', ''core'')]
       executableTag [''binp'']]"
    "prefer32Deps ex_deps6432 ex_props_prefer32 ex_arm =
     [AddFarVariationDependencies
     [(''arch'', ''android_arm''), (''image'', ''core''), (''link'', ''shared''), (''version'', [])]
     sharedLibTag [''libp''], AddFarVariationDependencies [(''arch'', ''android_arm''), (''image'', ''core'')]
       executableTag [''binp'']]"
    by code_simp+
  show ?thesis
    using prefer32_policy[of ex_arm64 ex_deps64 ex_target_props ex_props_prefer32]
      prefer32_policy[of ex_arm ex_deps6432 ex_target_props ex_props_prefer32]
      prefer32_policy[of ex_arm64 ex_deps6432 ex_target_props ex_props_prefer32]
    by (simp add: Let_def t64 t6432 m p b d list_all_iff)
qed

subsection \<open>The walk over the dependencies\<close>

lemma WalkDeps_append:
  "WalkDeps v parent (xs @ ys) st = WalkDeps v parent ys (WalkDeps v parent xs st)"
proof (induction xs arbitrary: st)
  case Nil
  then show ?case by (cases st) simp
next
  case (Cons x xs)
  obtain vis s where st: "st = (vis, s)" by (cases st)
  obtain t c ds where x: "x = Dep t c ds" by (cases x)
  show ?case
    by (simp add: st x Cons.IH split: prod.splits)
qed

lemma collectVisit_descend:
  "fst (collectVisit h d t c parent s) \<Longrightarrow> \<not> isApexBundle c"
  by (auto simp: collectVisit_def isApexBundle_def Let_def
           split: if_splits dependencyTag.splits moduleImpl.splits prod.splits option.splits)

lemma collectVisit_indirect:
  "\<not> isApexBundle parent \<Longrightarrow>
   keyPart (snd (collectVisit h d t c parent s)) = keyPart s
   \<and> (\<exists>fs. w_filesInfo (snd (collectVisit h d t c parent s)) = w_filesInfo s @ fs)"
  by (auto simp: collectVisit_def keyPart_def appendFile_def Let_def
           split: moduleImpl.splits prod.splits)

lemma WalkDeps_indirect:
  "\<not> isApexBundle parent \<Longrightarrow>
   keyPart (snd (WalkDeps (collectVisit h d) parent ds (vis, s))) = keyPart s
   \<and> (\<exists>fs. w_filesInfo (snd (WalkDeps (collectVisit h d) parent ds (vis, s))) = w_filesInfo s @ fs)"
proof (induction "collectVisit h d" parent ds "(vis, s)" arbitrary: vis s rule: WalkDeps.induct)
  case (1 parent visited s)
  then show ?case by simp
next
  case (2 parent depTag child ds rest visited s)
  obtain r s1 where v: "collectVisit h d depTag child parent s = (r, s1)"
    by (cases "collectVisit h d depTag child parent s")
  from collectVisit_indirect[OF "2.prems", of h d depTag child s] v
  have k1: "keyPart s1 = keyPart s" and f1: "\<exists>fs. w_filesInfo s1 = w_filesInfo s @ fs"
    by auto
  show ?case
  proof (cases "r \<and> child \<notin> set visited")
    case True
    obtain vis2 s2 where w: "WalkDeps (collectVisit h d) child ds (visited, s1) = (vis2, s2)"
      by (cases "WalkDeps (collectVisit h d) child ds (visited, s1)")
    from True v collectVisit_descend[of h d depTag child parent s]
    have nb: "\<not> isApexBundle child" by simp
    from "2.hyps"(1)[OF v[symmetric] _ nb] True w
    have k2: "keyPart s2 = keyPart s1" and f2: "\<exists>fs. w_filesInfo s2 = w_filesInfo s1 @ fs"
      by auto
    from "2.hyps"(2)[OF v[symmetric] _ w[symmetric] "2.prems"] True
    have "keyPart (snd (WalkDeps (collectVisit h d) parent rest (child # vis2, s2))) = keyPart s2
      \<and> (\<exists>fs. w_filesInfo (snd (WalkDeps (collectVisit h d) parent rest (child # vis2, s2))) = w_filesInfo s2 @ fs)"
      by simp
    with k1 k2 f1 f2 True v w show ?thesis by auto
  next
    case False
    from "2.hyps"(3)[OF v[symmetric] _ "2.prems"] False
    have "keyPart (snd (WalkDeps (collectVisit h d) parent rest (visited, s1))) = keyPart s1
      \<and> (\<exists>fs. w_filesInfo (snd (WalkDeps (collectVisit h d) parent rest (visited, s1))) = w_filesInfo s1 @ fs)"
      by simp
    with k1 f1 False v show ?thesis by auto
  qed
qed

text \<open>One step of the walk over the direct dependencies.\<close>

lemma WalkDeps_step:
  "\<exists>vis' s'. WalkDeps (collectVisit h d) parent (Dep t c cs # rest) (vis, s)
       = WalkDeps (collectVisit h d) parent rest (vis', s')
     \<and> keyPart s' = keyPart (snd (collectVisit h d t c parent s))
     \<and> (\<exists>fs. w_filesInfo s' = w_filesInfo (snd (collectVisit h d t c parent s)) @ fs)"
proof -
  obtain r s1 where v: "collectVisit h d t c parent s = (r, s1)"
    by (cases "collectVisit h d t c parent s")
  show ?thesis
  proof (cases "r \<and> c \<notin> set vis")
    case True
    obtain vis2 s2 where w: "WalkDeps (collectVisit h d) c cs (vis, s1) = (vis2, s2)"
      by (cases "WalkDeps (collectVisit h d) c cs (vis, s1)")
    from True v collectVisit_descend[of h d t c parent s]
    have nb: "\<not> isApexBundle c" by simp
    from WalkDeps_indirect[OF nb, of h d cs vis s1] w
    have "keyPart s2 = keyPart s1" "\<exists>fs. w_filesInfo s2 = w_filesInfo s1 @ fs" by auto
    with True v w show ?thesis
      by (intro exI[of _ "c # vis2"] exI[of _ s2]) auto
  next
    case False
    with v show ?thesis
      by (intro exI[of _ vis] exI[of _ s1]) auto
  qed
qed






subsection \<open>A missing signing key\<close>

lemma isApexBundle_thisModule [simp]: "isApexBundle (thisModule ctx)"
  by (simp add: isApexBundle_def thisModule_def)

lemma collectVisit_key_none:
  "\<not> resolvesKey (Dep t c cs) \<Longrightarrow> w_keyFile s = None \<Longrightarrow>
   w_keyFile (snd (collectVisit h d t c parent s)) = None"
  by (auto simp: collectVisit_def resolvesKey_def appendFile_def reportError_def Let_def
           split: dependencyTag.splits moduleImpl.splits prod.splits option.splits)

lemma WalkDeps_key_none:
  "\<forall>e\<in>set ds. \<not> resolvesKey e \<Longrightarrow> w_keyFile s = None \<Longrightarrow>
   w_keyFile (snd (WalkDeps (collectVisit h d) parent ds (vis, s))) = None"
proof (induction ds arbitrary: vis s)
  case Nil
  then show ?case by simp
next
  case (Cons x ds)
  obtain t c cs where x: "x = Dep t c cs" by (cases x)
  from WalkDeps_step[of h d parent t c cs ds vis s]
  obtain vis' s' where
    w: "WalkDeps (collectVisit h d) parent (Dep t c cs # ds) (vis, s)
          = WalkDeps (collectVisit h d) parent ds (vis', s')"
    and k: "keyPart s' = keyPart (snd (collectVisit h d t c parent s))"
    by blast
  from Cons.prems x have "\<not> resolvesKey (Dep t c cs)" by simp
  from collectVisit_key_none[OF this Cons.prems(2), of h d parent] k
  have "w_keyFile s' = None" by (simp add: keyPart_def)
  with Cons.IH[of s' vis'] Cons.prems(1) w x show ?case by simp
qed

lemma collectDeps_key_none:
  "\<forall>e\<in>set deps. \<not> resolvesKey e \<Longrightarrow> w_keyFile (collectDeps ctx p deps) = None"
  unfolding collectDeps_def
  by (rule WalkDeps_key_none) simp_all

lemma GenerateAndroidBuildActions_no_key:
  assumes "w_keyFile (collectDeps ctx p deps) = None"
  shows "GenerateAndroidBuildActions ctx p deps =
           Inr (newBundle\<lparr>
             a_apexTypes := (if knownPayloadType p
                             then (if Payload_type p = None \<or> Payload_type p = Some ''image''
                                   then imageApex
                                   else if Payload_type p = Some ''zip'' then zipApex else both)
                             else imageApex),
             a_flattened := (knownPayloadType p \<and> FlattenApex ctx \<and> \<not> UnbundledBuild ctx),
             ctx_errors :=
               (if knownPayloadType p
                then w_errors (collectDeps ctx p deps)
                     @ [PropertyErrorf ''key'' ''private_key for %q could not be found''
                          [String (Key p)]]
                else [PropertyErrorf ''type'' payloadTypeFormat [String (Payload_type p)]])\<rparr>)"
  using assms
  by (auto simp: GenerateAndroidBuildActions_def knownPayloadType_def Let_def newBundle_def)

lemma combineProperties_Key: "Key (combineProperties ctx tp p) = Key p"
  by (simp add: combineProperties_def Let_def)

lemma AddDependency_notin_depsForTarget:
  "AddDependency t n \<notin> set (depsForTarget c p h i x)"
  by (simp add: depsForTarget_def addDependenciesForNativeModules_def)

lemma AddDependency_notin_depsForTargets:
  "AddDependency t n \<notin> set (depsForTargets c p h i xs)"
  by (induction xs arbitrary: i) (simp_all add: AddDependency_notin_depsForTarget)

text \<open>
  C2. When no key dependency of the bundle resolves to a key module with a private key
  file (or, which follows from it, the walk ends without a key file), generation returns
  with an error and has created no build rule, installed no file, and set no output
  file and no file list. The error is the one for the missing private key, after the
  errors of the walk; only for a payload type that is not known generation has returned
  before, with the error for the type alone. And when the bundle names no key,
  \<open>DepsMutator\<close> reports \<open>key is missing\<close> and requests no key dependency.
\<close>

theorem missing_key_is_fatal:
  assumes "(\<forall>d\<in>set deps. \<not> resolvesKey d) \<or> w_keyFile (collectDeps ctx p deps) = None"
  shows "(\<exists>a. GenerateAndroidBuildActions ctx p deps = Inr a
            \<and> ctx_errors a =
                (if knownPayloadType p
                 then w_errors (collectDeps ctx p deps)
                      @ [PropertyErrorf ''key'' ''private_key for %q could not be found''
                           [String (Key p)]]
                 else [PropertyErrorf ''type'' payloadTypeFormat [String (Payload_type p)]])
            \<and> ctx_errors a \<noteq> []
            \<and> ctx_Build a = [] \<and> ctx_InstallFile a = [] \<and> a_filesInfo a = []
            \<and> a_outputFiles a = (\<lambda>_. None) \<and> a_bundleModuleFile a = None)
         \<and> (String (Key p) = [] \<longrightarrow>
              fst (DepsMutator dctx tp p) = [ModuleErrorf ''key is missing'' []]
              \<and> (\<forall>n. AddDependency keyTag n \<notin> set (snd (DepsMutator dctx tp p))))"
proof -
  from assms have "w_keyFile (collectDeps ctx p deps) = None"
    using collectDeps_key_none by blast
  from GenerateAndroidBuildActions_no_key[OF this]
  have "\<exists>a. GenerateAndroidBuildActions ctx p deps = Inr a
            \<and> ctx_errors a =
                (if knownPayloadType p
                 then w_errors (collectDeps ctx p deps)
                      @ [PropertyErrorf ''key'' ''private_key for %q could not be found''
                           [String (Key p)]]
                 else [PropertyErrorf ''type'' payloadTypeFormat [String (Payload_type p)]])
            \<and> ctx_errors a \<noteq> []
            \<and> ctx_Build a = [] \<and> ctx_InstallFile a = [] \<and> a_filesInfo a = []
            \<and> a_outputFiles a = (\<lambda>_. None) \<and> a_bundleModuleFile a = None"
    by (simp add: newBundle_def)
  moreover have "String (Key p) = [] \<longrightarrow>
              fst (DepsMutator dctx tp p) = [ModuleErrorf ''key is missing'' []]
              \<and> (\<forall>n. AddDependency keyTag n \<notin> set (snd (DepsMutator dctx tp p)))"
    by (simp add: DepsMutator_def Let_def combineProperties_Key
                  AddDependency_notin_depsForTargets)
  ultimately show ?thesis by blast
qed

theorem missing_key_is_fatal_witness:
  "(\<exists>a. GenerateAndroidBuildActions ex_ctx ex_props ex_deps_no_key = Inr a
         \<and> ctx_errors a \<noteq> [] \<and> ctx_Build a = [] \<and> ctx_InstallFile a = []
         \<and> a_filesInfo a = [])
   \<and> fst (DepsMutator ex_deps6432 ex_target_props (ex_props\<lparr>Key := None\<rparr>))
       = [ModuleErrorf ''key is missing'' []]"
proof -
  have "\<forall>d\<in>set ex_deps_no_key. \<not> resolvesKey d"
    by (simp add: ex_deps_no_key_def resolvesKey_def)
  then have h: "(\<forall>d\<in>set ex_deps_no_key. \<not> resolvesKey d)
               \<or> w_keyFile (collectDeps ex_ctx ex_props ex_deps_no_key) = None"
    by simp
  have h2: "(\<forall>d\<in>set []. \<not> resolvesKey d)
               \<or> w_keyFile (collectDeps ex_ctx (ex_props\<lparr>Key := None\<rparr>) []) = None"
    by simp
  have k: "String (Key (ex_props\<lparr>Key := None\<rparr>)) = []"
    by (simp add: String_def)
  from missing_key_is_fatal[OF h, of ex_deps6432 ex_target_props]
    missing_key_is_fatal[OF h2, of ex_deps6432 ex_target_props] k
  show ?thesis by blast
qed

subsection \<open>What the builders yield\<close>

lemma buildUnflattenedApex_zip:
  "buildUnflattenedApex ctx p k pk c zipApex a =
     (case signingCertificate ctx p c of
        None \<Rightarrow> Inl NilPath
      | Some cert \<Rightarrow>
          Inr (a\<lparr>a_outputFiles :=
                   (a_outputFiles a)(zipApex \<mapsto> PathForModuleOut ctx [ModuleName ctx @ ''.zipapex'']),
                 ctx_Build := ctx_Build a @
                   [zipApexRuleParams ctx p (a_filesInfo a) ''zip'' ''.zipapex'',
                    signapkParams ctx ''.zipapex'' cert],
                 ctx_InstallFile := ctx_InstallFile a @
                   (if installable p \<and> \<not> FlattenApex ctx
                    then [unflattenedInstall ctx ''.zipapex''] else [])\<rparr>))"
  by (simp add: buildUnflattenedApex_def zipPayload_def apexPackaging_suffix_def
                apexPackaging_name_def apexPackaging_image_def Let_def
           split: option.splits)

lemma buildUnflattenedApex_image:
  "buildUnflattenedApex ctx p k pk c imageApex a =
     (if fileContextsPath ctx p \<notin> set (ExistingSources ctx)
      then Inr (a\<lparr>ctx_Build := ctx_Build a @ [generateFsConfigParams ctx (a_filesInfo a)],
                  ctx_errors := ctx_errors a @
                    [ModuleErrorf ''Cannot find file_contexts file: %q''
                       [fileContextsPath ctx p]]\<rparr>)
      else
        (case signingCertificate ctx p c of
           None \<Rightarrow> Inl NilPath
         | Some cert \<Rightarrow>
             Inr (a\<lparr>a_bundleModuleFile :=
                      Some (PathForModuleOut ctx [ModuleName ctx @ ''.apex-base.zip'']),
                    a_outputFiles :=
                      (a_outputFiles a)(imageApex \<mapsto> PathForModuleOut ctx [ModuleName ctx @ ''.apex'']),
                    ctx_Build := ctx_Build a @
                      [generateFsConfigParams ctx (a_filesInfo a),
                       apexRuleParams ctx p (a_filesInfo a) k pk ''image'' ''.apex'',
                       apexProtoConvertParams ctx ''.apex'',
                       apexBundleParams ctx ''.apex'',
                       signapkParams ctx ''.apex'' cert],
                    ctx_InstallFile := ctx_InstallFile a @
                      (if installable p \<and> \<not> FlattenApex ctx
                       then [unflattenedInstall ctx ''.apex''] else [])\<rparr>)))"
  by (simp add: buildUnflattenedApex_def imagePayload_def apexPackaging_suffix_def
                apexPackaging_name_def apexPackaging_image_def Let_def
           split: option.splits)

lemma buildFlattenedApex_eq:
  "buildFlattenedApex ctx p a =
     (if installable p
      then a\<lparr>ctx_Build := ctx_Build a @ [copyManifestParams ctx p],
             a_filesInfo := a_filesInfo a @ [manifestEntry ctx],
             ctx_InstallFile := ctx_InstallFile a @
               (if FlattenApex ctx
                then map (flattenedInstall ctx) (a_filesInfo a @ [manifestEntry ctx]) else [])\<rparr>
      else a)"
  by (simp add: buildFlattenedApex_def Let_def)


lemma buildPayloads_eq:
  "buildPayloads ctx p k pk c a =
     (if signsPayload ctx p (a_apexTypes a) \<and> signingCertificate ctx p c = None
      then Inl NilPath
      else Inr (payloadsResult ctx p k pk (signingCertificate ctx p c) a))"
proof (cases "a_apexTypes a")
  case imageApex
  then show ?thesis
    by (cases a)
       (auto simp: buildPayloads_def buildUnflattenedApex_image buildFlattenedApex_eq
                   payloadsResult_def payloadBuilds_def payloadInstalls_def signsPayload_def
                   fileContextsExist_def apexPackaging_zip_def apexPackaging_image_def fun_eq_iff
             split: option.splits)
next
  case zipApex
  then show ?thesis
    by (cases a)
       (auto simp: buildPayloads_def buildUnflattenedApex_zip
                   payloadsResult_def payloadBuilds_def payloadInstalls_def signsPayload_def
                   fileContextsExist_def apexPackaging_zip_def apexPackaging_image_def fun_eq_iff
             split: option.splits)
next
  case both
  then show ?thesis
    by (cases a)
       (auto simp: buildPayloads_def buildUnflattenedApex_zip buildUnflattenedApex_image
                   buildFlattenedApex_eq
                   payloadsResult_def payloadBuilds_def payloadInstalls_def signsPayload_def
                   fileContextsExist_def apexPackaging_zip_def apexPackaging_image_def fun_eq_iff
             split: option.splits)
qed

lemma GenerateAndroidBuildActions_key:
  assumes "knownPayloadType p" and "w_keyFile (collectDeps ctx p deps) = Some k"
  shows "GenerateAndroidBuildActions ctx p deps =
           buildPayloads ctx p k (w_pubKeyFile (collectDeps ctx p deps))
             (w_certificate (collectDeps ctx p deps)) (normalizedBundle ctx p deps)"
  using assms
  by (auto simp: GenerateAndroidBuildActions_def knownPayloadType_def Let_def newBundle_def
                 normalizedBundle_def payloadType_def)

subsection \<open>The file list: duplicates, order and the manifest entry\<close>

lemma removeDupLoop_acc:
  "removeDupLoop enc res fs = res @ removeDupLoop enc [] fs"
proof (induction fs arbitrary: enc res)
  case Nil
  then show ?case by simp
next
  case (Cons f fs)
  show ?case
    using Cons.IH[of "insert (builtFile f) enc" "res @ [f]"]
      Cons.IH[of "insert (builtFile f) enc" "[f]"] Cons.IH[of enc res]
    by simp
qed

lemma removeDupLoop_Cons:
  "removeDupLoop enc [] (f # fs) =
     (if builtFile f \<notin> enc then f # removeDupLoop (insert (builtFile f) enc) [] fs
      else removeDupLoop enc [] fs)"
  using removeDupLoop_acc[of "insert (builtFile f) enc" "[f]" fs] by simp

lemma removeDupLoop_set:
  "set (removeDupLoop enc [] fs) \<subseteq> {f \<in> set fs. builtFile f \<notin> enc}"
proof (induction fs arbitrary: enc)
  case Nil
  then show ?case by simp
next
  case (Cons f fs)
  show ?case
    using Cons.IH[of "insert (builtFile f) enc"] Cons.IH[of enc]
    by (auto simp: removeDupLoop_Cons simp del: removeDupLoop.simps split: if_splits)
qed

lemma removeDupLoop_paths:
  "set (map builtFile (removeDupLoop enc [] fs)) = set (map builtFile fs) - enc"
proof (induction fs arbitrary: enc)
  case Nil
  then show ?case by simp
next
  case (Cons f fs)
  show ?case
    using Cons.IH[of "insert (builtFile f) enc"] Cons.IH[of enc]
    by (auto simp: removeDupLoop_Cons simp del: removeDupLoop.simps)
qed

lemma removeDupLoop_distinct:
  "distinct (map builtFile (removeDupLoop enc [] fs))"
proof (induction fs arbitrary: enc)
  case Nil
  then show ?case by simp
next
  case (Cons f fs)
  show ?case
    using Cons.IH[of "insert (builtFile f) enc"] Cons.IH[of enc]
      removeDupLoop_set[of "insert (builtFile f) enc" fs]
    by (auto simp: removeDupLoop_Cons simp del: removeDupLoop.simps)
qed

lemma removeDupLoop_first:
  "f \<in> set (removeDupLoop enc [] fs) \<Longrightarrow> find (\<lambda>g. builtFile g = builtFile f) fs = Some f"
proof (induction fs arbitrary: enc)
  case Nil
  then show ?case by simp
next
  case (Cons f' fs)
  show ?case
  proof (cases "builtFile f' \<in> enc")
    case True
    with Cons.prems have m: "f \<in> set (removeDupLoop enc [] fs)"
      by (simp add: removeDupLoop_Cons del: removeDupLoop.simps)
    with removeDupLoop_set[of enc fs] have "builtFile f \<notin> enc" by auto
    with True have "builtFile f' \<noteq> builtFile f" by auto
    with Cons.IH[OF m] show ?thesis by simp
  next
    case False
    show ?thesis
    proof (cases "f = f'")
      case True
      then show ?thesis by simp
    next
      case ne: False
      with False Cons.prems
      have m: "f \<in> set (removeDupLoop (insert (builtFile f') enc) [] fs)"
        by (simp add: removeDupLoop_Cons del: removeDupLoop.simps)
      with removeDupLoop_set[of "insert (builtFile f') enc" fs]
      have "builtFile f' \<noteq> builtFile f" by auto
      with Cons.IH[OF m] show ?thesis by simp
    qed
  qed
qed

lemma builtFile_prependApexName [simp]:
  "map builtFile (prependApexName n fs) = map builtFile fs"
  by (simp add: prependApexName_def comp_def)

lemma distinct_map_sort_key:
  "distinct (map f (sort_key f xs)) = distinct (map f xs)"
  by (induction xs) (simp_all add: distinct_insort_key)

lemma normalize_sorted_distinct:
  "sorted (map builtFile (normalize ctx fs)) \<and> distinct (map builtFile (normalize ctx fs))
   \<and> set (map builtFile (normalize ctx fs)) = set (map builtFile fs)"
  using removeDupLoop_distinct[of "{}" fs] removeDupLoop_paths[of "{}" fs]
  by (simp add: normalize_def sortFilesInfo_def removeDup_def distinct_map_sort_key)

lemma GenerateAndroidBuildActions_filesInfo:
  assumes "GenerateAndroidBuildActions ctx p deps = Inr a"
    and "knownPayloadType p" and "w_keyFile (collectDeps ctx p deps) \<noteq> None"
  shows "a_filesInfo a =
           normalize ctx (w_filesInfo (collectDeps ctx p deps))
           @ (if apexPackaging_image (payloadType p) \<and> installable p
              then [manifestEntry ctx] else [])"
proof -
  from assms(3) obtain k where k: "w_keyFile (collectDeps ctx p deps) = Some k" by auto
  from GenerateAndroidBuildActions_key[OF assms(2) k] assms(1)
  show ?thesis
    by (auto simp: buildPayloads_eq payloadsResult_def normalizedBundle_def newBundle_def
             split: if_splits)
qed

lemma ex_lib_key_generated:
  "finalPaths (GenerateAndroidBuildActions ex_ctx ex_props ex_deps_lib_key)
     = Some [''out/.intermediates/lib/libfoo/arm64/libfoo.so'', ''out/.intermediates/apex/myapex/common/apex_manifest.json'']"
  by code_simp

lemma ex_lib_key_hyps:
  "knownPayloadType ex_props" "w_keyFile (collectDeps ex_ctx ex_props ex_deps_lib_key) \<noteq> None"
  "installable ex_props" "apexPackaging_image (payloadType ex_props)"
  "Payload_type ex_props = None"
  by code_simp+

lemma ex_lib_key_manifest_fresh:
  "PathForModuleOut ex_ctx [''apex_manifest.json'']
     \<notin> set (map builtFile (w_filesInfo (collectDeps ex_ctx ex_props ex_deps_lib_key)))"
  by code_simp

text \<open>
  C3, as the code has it. When generation goes through (known payload type, a key file),
  the final file list is the normalized list \<open>N\<close>, followed by the entry for the copied
  manifest when the bundle has an image payload and is installable. No two entries of
  \<open>N\<close> have the same \<open>builtFile\<close>, \<open>N\<close> is sorted by \<open>builtFile\<close> and has every path that
  the walk collected, and of the collected files with the same path \<open>removeDup\<close> keeps the
  first one. The final list has no two entries with the same \<open>builtFile\<close> either, when the
  path of the copied manifest is not the path of a collected file. It is sorted by
  \<open>builtFile\<close> exactly when no entry for the manifest was appended or no collected path
  comes after the path of the copied manifest.
\<close>

theorem normalized_list_distinct_sorted:
  assumes "GenerateAndroidBuildActions ctx p deps = Inr a"
    and "knownPayloadType p"
    and "w_keyFile (collectDeps ctx p deps) \<noteq> None"
  shows "\<exists>N. a_filesInfo a =
               N @ (if apexPackaging_image (payloadType p) \<and> installable p
                    then [manifestEntry ctx] else [])
           \<and> N = prependApexName (ModuleName ctx)
                   (sortFilesInfo (removeDup (w_filesInfo (collectDeps ctx p deps))))
           \<and> distinct (map builtFile N) \<and> sorted (map builtFile N)
           \<and> set (map builtFile N) = set (map builtFile (w_filesInfo (collectDeps ctx p deps)))
           \<and> (\<forall>f\<in>set (removeDup (w_filesInfo (collectDeps ctx p deps))).
                 find (\<lambda>g. builtFile g = builtFile f) (w_filesInfo (collectDeps ctx p deps))
                   = Some f)
           \<and> (PathForModuleOut ctx [''apex_manifest.json'']
                  \<notin> set (map builtFile (w_filesInfo (collectDeps ctx p deps)))
                \<longrightarrow> distinct (map builtFile (a_filesInfo a)))
           \<and> (sorted (map builtFile (a_filesInfo a))
                \<longleftrightarrow> \<not> (apexPackaging_image (payloadType p) \<and> installable p)
                    \<or> (\<forall>x\<in>set (map builtFile (w_filesInfo (collectDeps ctx p deps))).
                          x \<le> PathForModuleOut ctx [''apex_manifest.json'']))"
proof -
  let ?fs = "w_filesInfo (collectDeps ctx p deps)"
  let ?N = "normalize ctx ?fs"
  have first: "\<forall>f\<in>set (removeDup ?fs). find (\<lambda>g. builtFile g = builtFile f) ?fs = Some f"
    using removeDupLoop_first[of _ "{}" ?fs] by (simp add: removeDup_def)
  have n: "?N = prependApexName (ModuleName ctx) (sortFilesInfo (removeDup ?fs))"
    by (simp add: normalize_def)
  note fl = GenerateAndroidBuildActions_filesInfo[OF assms]
  note nsd = normalize_sorted_distinct[of ctx ?fs]
  have m: "builtFile (manifestEntry ctx) = PathForModuleOut ctx [''apex_manifest.json'']"
    by (simp add: manifestEntry_def)
  have d: "distinct (map builtFile (a_filesInfo a))"
    if "PathForModuleOut ctx [''apex_manifest.json''] \<notin> set (map builtFile ?fs)"
    using that fl nsd m by auto
  have s: "sorted (map builtFile (a_filesInfo a))
             \<longleftrightarrow> \<not> (apexPackaging_image (payloadType p) \<and> installable p)
                 \<or> (\<forall>x\<in>set (map builtFile ?fs). x \<le> PathForModuleOut ctx [''apex_manifest.json''])"
    using fl nsd m by (auto simp: sorted_append)
  from fl nsd first n d s show ?thesis by blast
qed

theorem normalized_list_distinct_sorted_witness:
  "\<exists>a N. GenerateAndroidBuildActions ex_ctx ex_props ex_deps_lib_key = Inr a
          \<and> a_filesInfo a = N @ [manifestEntry ex_ctx]
          \<and> distinct (map builtFile N) \<and> sorted (map builtFile N)
          \<and> distinct (map builtFile (a_filesInfo a))"
proof -
  obtain a where a: "GenerateAndroidBuildActions ex_ctx ex_props ex_deps_lib_key = Inr a"
    using ex_lib_key_generated
    by (cases "GenerateAndroidBuildActions ex_ctx ex_props ex_deps_lib_key")
       (simp_all add: finalPaths_def)
  from normalized_list_distinct_sorted[OF a ex_lib_key_hyps(1) ex_lib_key_hyps(2)]
    ex_lib_key_hyps(3,4) ex_lib_key_manifest_fresh a
  show ?thesis by auto
qed

text \<open>
  The final file list of the bundle \<open>myapex\<close> with the library \<open>libfoo\<close> and its key:
  the path of the library comes before the path of the copied manifest, and the list is
  not sorted.
\<close>

theorem final_list_unsorted:
  "finalPaths (GenerateAndroidBuildActions ex_ctx ex_props ex_deps_lib_key)
     = Some [''out/.intermediates/lib/libfoo/arm64/libfoo.so'', ''out/.intermediates/apex/myapex/common/apex_manifest.json'']
   \<and> \<not> sorted [''out/.intermediates/lib/libfoo/arm64/libfoo.so'', ''out/.intermediates/apex/myapex/common/apex_manifest.json'']"
  by code_simp

text \<open>
  C9. When generation goes through for a bundle that has an image payload and is
  installable, the final file list is the normalized list with exactly one more entry
  at its end: the copied manifest \<open>apex_manifest.json\<close> in the output directory of the
  module, with the module name of the bundle followed by \<open>.apex_manifest.json\<close>, the
  install directory \<open>.\<close> and the class \<open>etc\<close>; and the rule that copies the manifest has
  been created. Flattened installation need not be selected for this: the statement
  holds for every context.
\<close>

theorem manifest_entry_appended:
  assumes "GenerateAndroidBuildActions ctx p deps = Inr a"
    and "Payload_type p = None \<or> Payload_type p = Some ''image'' \<or> Payload_type p = Some ''both''"
    and "w_keyFile (collectDeps ctx p deps) \<noteq> None"
    and "installable p"
  shows "a_filesInfo a =
           normalize ctx (w_filesInfo (collectDeps ctx p deps))
           @ [\<lparr>builtFile = PathForModuleOut ctx [''apex_manifest.json''],
               moduleName = ModuleName ctx @ ''.apex_manifest.json'',
               installDir = ''.'', fileClass = etc, fileModule = None, symlinks = []\<rparr>]
         \<and> copyManifestParams ctx p \<in> set (ctx_Build a)"
proof -
  from assms(2) have known: "knownPayloadType p" and img: "apexPackaging_image (payloadType p)"
    by (auto simp: knownPayloadType_def payloadType_def apexPackaging_image_def)
  from assms(3) obtain k where k: "w_keyFile (collectDeps ctx p deps) = Some k" by auto
  from GenerateAndroidBuildActions_filesInfo[OF assms(1) known assms(3)] img assms(4)
  have f: "a_filesInfo a = normalize ctx (w_filesInfo (collectDeps ctx p deps)) @ [manifestEntry ctx]"
    by simp
  from GenerateAndroidBuildActions_key[OF known k] assms(1) img assms(4)
  have "copyManifestParams ctx p \<in> set (ctx_Build a)"
    by (auto simp: buildPayloads_eq payloadsResult_def payloadBuilds_def normalizedBundle_def
                   newBundle_def
             split: if_splits)
  with f show ?thesis by (simp add: manifestEntry_def)
qed

theorem manifest_entry_appended_witness:
  "\<not> FlattenApex ex_ctx
   \<and> (\<exists>a. GenerateAndroidBuildActions ex_ctx ex_props ex_deps_lib_key = Inr a
          \<and> a_filesInfo a =
              normalize ex_ctx (w_filesInfo (collectDeps ex_ctx ex_props ex_deps_lib_key))
              @ [\<lparr>builtFile = PathForModuleOut ex_ctx [''apex_manifest.json''],
                  moduleName = ModuleName ex_ctx @ ''.apex_manifest.json'',
                  installDir = ''.'', fileClass = etc, fileModule = None, symlinks = []\<rparr>])"
proof -
  obtain a where a: "GenerateAndroidBuildActions ex_ctx ex_props ex_deps_lib_key = Inr a"
    using ex_lib_key_generated
    by (cases "GenerateAndroidBuildActions ex_ctx ex_props ex_deps_lib_key")
       (simp_all add: finalPaths_def)
  have p: "Payload_type ex_props = None \<or> Payload_type ex_props = Some ''image''
           \<or> Payload_type ex_props = Some ''both''"
    using ex_lib_key_hyps(5) by simp
  have f: "\<not> FlattenApex ex_ctx" by (simp add: ex_ctx_def)
  from manifest_entry_appended[OF a p ex_lib_key_hyps(2) ex_lib_key_hyps(3)] a f
  show ?thesis by simp
qed

subsection \<open>Flattened and unflattened installation\<close>

lemma PathFor_flatten [simp]:
  "PathForOutput (ctx\<lparr>FlattenApex := f\<rparr>) = PathForOutput ctx"
  "PathForModuleOut (ctx\<lparr>FlattenApex := f\<rparr>) = PathForModuleOut ctx"
  "PathForModuleSrc (ctx\<lparr>FlattenApex := f\<rparr>) = PathForModuleSrc ctx"
  "PathForModuleInstall (ctx\<lparr>FlattenApex := f\<rparr>) = PathForModuleInstall ctx"
  by (simp_all add: PathForOutput_def PathForModuleOut_def PathForModuleSrc_def
                    PathForModuleInstall_def fun_eq_iff)

lemma params_flatten [simp]:
  "manifestPath (ctx\<lparr>FlattenApex := f\<rparr>) = manifestPath ctx"
  "fileContextsPath (ctx\<lparr>FlattenApex := f\<rparr>) = fileContextsPath ctx"
  "fileContextsExist (ctx\<lparr>FlattenApex := f\<rparr>) = fileContextsExist ctx"
  "targetAbis (ctx\<lparr>FlattenApex := f\<rparr>) = targetAbis ctx"
  "toolPath (ctx\<lparr>FlattenApex := f\<rparr>) = toolPath ctx"
  "copyCommands (ctx\<lparr>FlattenApex := f\<rparr>) = copyCommands ctx"
  "generateFsConfigParams (ctx\<lparr>FlattenApex := f\<rparr>) = generateFsConfigParams ctx"
  "apexProtoConvertParams (ctx\<lparr>FlattenApex := f\<rparr>) = apexProtoConvertParams ctx"
  "signapkParams (ctx\<lparr>FlattenApex := f\<rparr>) = signapkParams ctx"
  "manifestEntry (ctx\<lparr>FlattenApex := f\<rparr>) = manifestEntry ctx"
  "signingCertificate (ctx\<lparr>FlattenApex := f\<rparr>) = signingCertificate ctx"
  "thisModule (ctx\<lparr>FlattenApex := f\<rparr>) = thisModule ctx"
  by (simp_all add: manifestPath_def fileContextsPath_def fileContextsExist_def targetAbis_def
                    toolPath_def copyCommands_def generateFsConfigParams_def
                    apexProtoConvertParams_def signapkParams_def manifestEntry_def
                    signingCertificate_def thisModule_def Let_def fun_eq_iff)

lemma params_flatten2 [simp]:
  "apexRuleParams (ctx\<lparr>FlattenApex := f\<rparr>) = apexRuleParams ctx"
  "apexBundleParams (ctx\<lparr>FlattenApex := f\<rparr>) = apexBundleParams ctx"
  "zipApexRuleParams (ctx\<lparr>FlattenApex := f\<rparr>) = zipApexRuleParams ctx"
  "copyManifestParams (ctx\<lparr>FlattenApex := f\<rparr>) = copyManifestParams ctx"
  "signsPayload (ctx\<lparr>FlattenApex := f\<rparr>) = signsPayload ctx"
  "collectDeps (ctx\<lparr>FlattenApex := f\<rparr>) = collectDeps ctx"
  "normalize (ctx\<lparr>FlattenApex := f\<rparr>) = normalize ctx"
  "payloadBuilds (ctx\<lparr>FlattenApex := f\<rparr>) = payloadBuilds ctx"
  by (simp_all add: apexRuleParams_def apexBundleParams_def zipApexRuleParams_def
                    copyManifestParams_def signsPayload_def collectDeps_def normalize_def
                    payloadBuilds_def fun_eq_iff)

lemma payloadsResult_flatten:
  "withoutInstalls (payloadsResult (ctx\<lparr>FlattenApex := f\<rparr>) p k pk cert
                      (normalizedBundle (ctx\<lparr>FlattenApex := f\<rparr>) p deps))
   = withoutInstalls (payloadsResult ctx p k pk cert (normalizedBundle ctx p deps))"
  by (simp add: withoutInstalls_def payloadsResult_def normalizedBundle_def newBundle_def
                fun_eq_iff)

lemma normalizedBundle_apexTypes [simp]:
  "a_apexTypes (normalizedBundle ctx p deps) = payloadType p"
  by (simp add: normalizedBundle_def newBundle_def)

lemma GenerateAndroidBuildActions_flatten:
  "map_sum id withoutInstalls (GenerateAndroidBuildActions (ctx\<lparr>FlattenApex := f\<rparr>) p deps)
   = map_sum id withoutInstalls (GenerateAndroidBuildActions ctx p deps)"
proof (cases "knownPayloadType p")
  case False
  then show ?thesis
    by (simp add: GenerateAndroidBuildActions_def Let_def knownPayloadType_def)
next
  case True
  show ?thesis
  proof (cases "w_keyFile (collectDeps ctx p deps)")
    case None
    then have "w_keyFile (collectDeps (ctx\<lparr>FlattenApex := f\<rparr>) p deps) = None" by simp
    from GenerateAndroidBuildActions_no_key[OF this] GenerateAndroidBuildActions_no_key[OF None]
    show ?thesis by (simp add: withoutInstalls_def newBundle_def)
  next
    case (Some k)
    then have "w_keyFile (collectDeps (ctx\<lparr>FlattenApex := f\<rparr>) p deps) = Some k" by simp
    from GenerateAndroidBuildActions_key[OF True this] GenerateAndroidBuildActions_key[OF True Some]
    show ?thesis
      by (simp add: buildPayloads_eq payloadsResult_flatten)
  qed
qed

lemma Rule_params [simp]:
  "Rule (generateFsConfigParams ctx files) = generateFsConfig"
  "Rule (apexRuleParams ctx p files k pk n sfx) = apexRule"
  "Rule (apexProtoConvertParams ctx sfx) = apexProtoConvertRule"
  "Rule (apexBundleParams ctx sfx) = apexBundleRule"
  "Rule (zipApexRuleParams ctx p files n sfx) = zipApexRule"
  "Rule (signapkParams ctx sfx c) = Signapk"
  "Rule (copyManifestParams ctx p) = Cp"
  by (simp_all add: generateFsConfigParams_def apexRuleParams_def apexProtoConvertParams_def
                    apexBundleParams_def zipApexRuleParams_def signapkParams_def
                    copyManifestParams_def Let_def split: prod.splits)

lemma GenerateAndroidBuildActions_builds:
  assumes "GenerateAndroidBuildActions ctx p deps = Inr a"
    and "knownPayloadType p" and "w_keyFile (collectDeps ctx p deps) = Some k"
  shows "ctx_Build a =
           payloadBuilds ctx p (payloadType p)
             (normalize ctx (w_filesInfo (collectDeps ctx p deps))) k
             (w_pubKeyFile (collectDeps ctx p deps))
             (signingCertificate ctx p (w_certificate (collectDeps ctx p deps)))"
    and "ctx_InstallFile a =
           payloadInstalls ctx p (payloadType p)
             (normalize ctx (w_filesInfo (collectDeps ctx p deps)))"
    and "signsPayload ctx p (payloadType p) \<Longrightarrow>
           signingCertificate ctx p (w_certificate (collectDeps ctx p deps)) \<noteq> None"
    and "ctx_errors a =
           w_errors (collectDeps ctx p deps)
           @ (if apexPackaging_image (payloadType p) \<and> \<not> fileContextsExist ctx p
              then [ModuleErrorf ''Cannot find file_contexts file: %q'' [fileContextsPath ctx p]]
              else [])"
    and "a_outputFiles a imageApex =
           (if apexPackaging_image (payloadType p) \<and> fileContextsExist ctx p
            then Some (PathForModuleOut ctx [ModuleName ctx @ ''.apex'']) else None)"
  using GenerateAndroidBuildActions_key[OF assms(2,3)] assms(1)
  by (auto simp: buildPayloads_eq payloadsResult_def normalizedBundle_def newBundle_def
           split: if_splits)


lemma ex_lib_key_hyps2:
  "w_keyFile (collectDeps ex_ctx ex_props ex_deps_lib_key) = Some ''apex/testkey.pem''"
  "w_keyFile (collectDeps (ex_ctx\<lparr>FlattenApex := True\<rparr>) ex_props ex_deps_lib_key)
     = Some ''apex/testkey.pem''"
  "fileContextsExist ex_ctx ex_props"
  "fileContextsExist (ex_ctx\<lparr>FlattenApex := True\<rparr>) ex_props"
  "finalPaths (GenerateAndroidBuildActions (ex_ctx\<lparr>FlattenApex := True\<rparr>) ex_props
                 ex_deps_lib_key) \<noteq> None"
  "FlattenApex (ex_ctx\<lparr>FlattenApex := True\<rparr>)" "\<not> FlattenApex ex_ctx"
  by code_simp+

lemma GenerateAndroidBuildActions_flattened:
  assumes "GenerateAndroidBuildActions ctx p deps = Inr a"
    and "knownPayloadType p" and "w_keyFile (collectDeps ctx p deps) = Some k"
  shows "a_flattened a = (FlattenApex ctx \<and> \<not> UnbundledBuild ctx)"
  using GenerateAndroidBuildActions_key[OF assms(2,3)] assms(1)
  by (auto simp: buildPayloads_eq payloadsResult_def normalizedBundle_def newBundle_def
           split: if_splits)

text \<open>
  C7, as the code has it. Whether flattened installation is selected changes nothing in
  what generation yields but the installed files and the \<open>flattened\<close> flag: the build
  rules, the output files, the file list and the errors are the same for either
  selection. And for a bundle with an image payload, a key file and its security-label
  file, whose generation does not panic, the rules of the unflattened image (access-mode
  manifest, image, signing) have been created and the output file of the image is set,
  whatever the selection is. The selection changes the install step and the flag: the
  flag is set when flattened installation is selected in a build that is not unbundled;
  the installed files are the unflattened payloads when the bundle is installable and
  flattened installation is not selected, every file of the final file list (with the
  copied manifest) when it is installable and flattened installation is selected, and
  none otherwise.
\<close>

theorem unflattened_rules_independent_of_flattening:
  "map_sum id withoutInstalls (GenerateAndroidBuildActions (ctx\<lparr>FlattenApex := f\<rparr>) p deps)
     = map_sum id withoutInstalls (GenerateAndroidBuildActions ctx p deps)
   \<and> (GenerateAndroidBuildActions ctx p deps = Inr a
        \<and> (Payload_type p = None \<or> Payload_type p = Some ''image''
            \<or> Payload_type p = Some ''both'')
        \<and> w_keyFile (collectDeps ctx p deps) = Some k
        \<and> fileContextsExist ctx p \<longrightarrow>
          generateFsConfigParams ctx (normalize ctx (w_filesInfo (collectDeps ctx p deps)))
            \<in> set (ctx_Build a)
        \<and> apexRuleParams ctx p (normalize ctx (w_filesInfo (collectDeps ctx p deps))) k
            (w_pubKeyFile (collectDeps ctx p deps)) ''image'' ''.apex'' \<in> set (ctx_Build a)
        \<and> (\<exists>c. signapkParams ctx ''.apex'' c \<in> set (ctx_Build a))
        \<and> a_outputFiles a imageApex = Some (PathForModuleOut ctx [ModuleName ctx @ ''.apex''])
        \<and> a_flattened a = (FlattenApex ctx \<and> \<not> UnbundledBuild ctx)
        \<and> ctx_InstallFile a =
            (if installable p
             then if FlattenApex ctx then map (flattenedInstall ctx) (a_filesInfo a)
                  else (if Payload_type p = Some ''both''
                        then [unflattenedInstall ctx ''.zipapex''] else [])
                       @ [unflattenedInstall ctx ''.apex'']
             else []))"
proof -
  have "generateFsConfigParams ctx (normalize ctx (w_filesInfo (collectDeps ctx p deps)))
            \<in> set (ctx_Build a)
        \<and> apexRuleParams ctx p (normalize ctx (w_filesInfo (collectDeps ctx p deps))) k
            (w_pubKeyFile (collectDeps ctx p deps)) ''image'' ''.apex'' \<in> set (ctx_Build a)
        \<and> (\<exists>c. signapkParams ctx ''.apex'' c \<in> set (ctx_Build a))
        \<and> a_outputFiles a imageApex = Some (PathForModuleOut ctx [ModuleName ctx @ ''.apex''])
        \<and> a_flattened a = (FlattenApex ctx \<and> \<not> UnbundledBuild ctx)
        \<and> ctx_InstallFile a =
            (if installable p
             then if FlattenApex ctx then map (flattenedInstall ctx) (a_filesInfo a)
                  else (if Payload_type p = Some ''both''
                        then [unflattenedInstall ctx ''.zipapex''] else [])
                       @ [unflattenedInstall ctx ''.apex'']
             else [])"
    if g: "GenerateAndroidBuildActions ctx p deps = Inr a"
      and pt: "Payload_type p = None \<or> Payload_type p = Some ''image''
               \<or> Payload_type p = Some ''both''"
      and k: "w_keyFile (collectDeps ctx p deps) = Some k"
      and fc: "fileContextsExist ctx p"
  proof -
    from pt have known: "knownPayloadType p" and img: "apexPackaging_image (payloadType p)"
      and z: "apexPackaging_zip (payloadType p) = (Payload_type p = Some ''both'')"
      by (auto simp: knownPayloadType_def payloadType_def apexPackaging_image_def
                     apexPackaging_zip_def)
    from img fc have sp: "signsPayload ctx p (payloadType p)" by (simp add: signsPayload_def)
    from GenerateAndroidBuildActions_builds(3)[OF g known k sp]
    obtain c where c: "signingCertificate ctx p (w_certificate (collectDeps ctx p deps)) = Some c"
      by auto
    from k have k': "w_keyFile (collectDeps ctx p deps) \<noteq> None" by simp
    note b = GenerateAndroidBuildActions_builds(1)[OF g known k]
    note i = GenerateAndroidBuildActions_builds(2)[OF g known k]
    note o = GenerateAndroidBuildActions_builds(5)[OF g known k]
    note fl = GenerateAndroidBuildActions_filesInfo[OF g known k']
    from b img fc c have "generateFsConfigParams ctx (normalize ctx (w_filesInfo (collectDeps ctx p deps)))
            \<in> set (ctx_Build a)"
      and "apexRuleParams ctx p (normalize ctx (w_filesInfo (collectDeps ctx p deps))) k
            (w_pubKeyFile (collectDeps ctx p deps)) ''image'' ''.apex'' \<in> set (ctx_Build a)"
      and "signapkParams ctx ''.apex'' c \<in> set (ctx_Build a)"
      by (simp_all add: payloadBuilds_def)
    moreover from o img fc
    have "a_outputFiles a imageApex = Some (PathForModuleOut ctx [ModuleName ctx @ ''.apex''])"
      by simp
    moreover from GenerateAndroidBuildActions_flattened[OF g known k]
    have "a_flattened a = (FlattenApex ctx \<and> \<not> UnbundledBuild ctx)" .
    moreover from i fl img fc z
    have "ctx_InstallFile a =
            (if installable p
             then if FlattenApex ctx then map (flattenedInstall ctx) (a_filesInfo a)
                  else (if Payload_type p = Some ''both''
                        then [unflattenedInstall ctx ''.zipapex''] else [])
                       @ [unflattenedInstall ctx ''.apex'']
             else [])"
      by (simp add: payloadInstalls_def)
    ultimately show ?thesis by blast
  qed
  with GenerateAndroidBuildActions_flatten[of f ctx p deps] show ?thesis by blast
qed

theorem unflattened_rules_independent_of_flattening_witness:
  "(\<exists>a. GenerateAndroidBuildActions ex_ctx ex_props ex_deps_lib_key = Inr a
        \<and> apexRuleParams ex_ctx ex_props
             (normalize ex_ctx (w_filesInfo (collectDeps ex_ctx ex_props ex_deps_lib_key)))
             ''apex/testkey.pem''
             (w_pubKeyFile (collectDeps ex_ctx ex_props ex_deps_lib_key)) ''image'' ''.apex''
            \<in> set (ctx_Build a)
        \<and> ctx_InstallFile a = [unflattenedInstall ex_ctx ''.apex''])
   \<and> (\<exists>a. GenerateAndroidBuildActions (ex_ctx\<lparr>FlattenApex := True\<rparr>) ex_props ex_deps_lib_key
             = Inr a
        \<and> apexRuleParams (ex_ctx\<lparr>FlattenApex := True\<rparr>) ex_props
             (normalize (ex_ctx\<lparr>FlattenApex := True\<rparr>)
                (w_filesInfo (collectDeps (ex_ctx\<lparr>FlattenApex := True\<rparr>) ex_props
                                ex_deps_lib_key)))
             ''apex/testkey.pem''
             (w_pubKeyFile (collectDeps (ex_ctx\<lparr>FlattenApex := True\<rparr>) ex_props
                              ex_deps_lib_key)) ''image'' ''.apex''
            \<in> set (ctx_Build a)
        \<and> ctx_InstallFile a
            = map (flattenedInstall (ex_ctx\<lparr>FlattenApex := True\<rparr>)) (a_filesInfo a))"
proof -
  obtain a where a: "GenerateAndroidBuildActions ex_ctx ex_props ex_deps_lib_key = Inr a"
    using ex_lib_key_generated
    by (cases "GenerateAndroidBuildActions ex_ctx ex_props ex_deps_lib_key")
       (simp_all add: finalPaths_def)
  obtain a' where a': "GenerateAndroidBuildActions (ex_ctx\<lparr>FlattenApex := True\<rparr>) ex_props
                         ex_deps_lib_key = Inr a'"
    using ex_lib_key_hyps2(5)
    by (cases "GenerateAndroidBuildActions (ex_ctx\<lparr>FlattenApex := True\<rparr>) ex_props
                 ex_deps_lib_key")
       (simp_all add: finalPaths_def)
  from unflattened_rules_independent_of_flattening[where ctx=ex_ctx and p=ex_props
      and deps=ex_deps_lib_key and a=a and k="''apex/testkey.pem''"]
    unflattened_rules_independent_of_flattening[where ctx="ex_ctx\<lparr>FlattenApex := True\<rparr>"
      and p=ex_props and deps=ex_deps_lib_key and a=a' and k="''apex/testkey.pem''"]
    a a' ex_lib_key_hyps ex_lib_key_hyps2
  show ?thesis by simp
qed

text \<open>
  The bundle \<open>myapex\<close> with the library \<open>libfoo\<close> and its key, generated without and with
  flattened installation selected. Without it the flag is not set and the unflattened
  image \<open>myapex.apex\<close> is installed in \<open>apex\<close>. With it the flag is set, and instead of
  the image the library and the copied manifest are installed below \<open>apex/myapex\<close>: the
  selection changes more than whether the unflattened image is installed.
\<close>

theorem flattening_installs_files:
  "installed (GenerateAndroidBuildActions ex_ctx ex_props ex_deps_lib_key)
     = Some (False,
             [\<lparr>install_path = ''out/system/apex'', install_name = ''myapex.apex'',
               install_src = ''out/.intermediates/apex/myapex/common/myapex.apex''\<rparr>])
   \<and> installed (GenerateAndroidBuildActions (ex_ctx\<lparr>FlattenApex := True\<rparr>) ex_props
                  ex_deps_lib_key)
     = Some (True,
             [\<lparr>install_path = ''out/system/apex/myapex/lib64'', install_name = ''libfoo.so'',
               install_src = ''out/.intermediates/lib/libfoo/arm64/libfoo.so''\<rparr>,
              \<lparr>install_path = ''out/system/apex/myapex'', install_name = ''apex_manifest.json'',
               install_src = ''out/.intermediates/apex/myapex/common/apex_manifest.json''\<rparr>])"
  by code_simp

subsection \<open>The public key in the image\<close>

lemma collectVisit_not_debuggable:
  "w_pubKeyFile (snd (collectVisit h False t c parent s)) = w_pubKeyFile s"
  by (auto simp: collectVisit_def appendFile_def reportError_def Let_def
           split: dependencyTag.splits moduleImpl.splits prod.splits option.splits)

lemma collectVisit_no_keyTag:
  "t \<noteq> keyTag \<Longrightarrow>
   w_pubKeyFile (snd (collectVisit h d t c parent s)) = w_pubKeyFile s
   \<and> w_keyFile (snd (collectVisit h d t c parent s)) = w_keyFile s"
  by (auto simp: collectVisit_def appendFile_def reportError_def Let_def
           split: dependencyTag.splits moduleImpl.splits prod.splits option.splits)

lemma collectVisit_key:
  "isApexBundle parent \<Longrightarrow> module_impl c = ApexKey key \<Longrightarrow>
   w_pubKeyFile (snd (collectVisit h d keyTag c parent s))
     = (if \<not> key_installable key \<and> d then public_key_file key else w_pubKeyFile s)
   \<and> w_keyFile (snd (collectVisit h d keyTag c parent s)) = private_key_file key"
  by (simp add: collectVisit_def)

text \<open>An invariant of the callback on the key variables is an invariant of the walk.\<close>

lemma WalkDeps_keys_invariant:
  assumes "\<And>e s. e \<in> set ds \<Longrightarrow>
             P (w_keyFile (snd (collectVisit h d (edgeTag e) (edgeChild e) parent s)),
                w_pubKeyFile (snd (collectVisit h d (edgeTag e) (edgeChild e) parent s)))
             = P (w_keyFile s, w_pubKeyFile s)"
  shows "P (w_keyFile (snd (WalkDeps (collectVisit h d) parent ds (vis, s))),
            w_pubKeyFile (snd (WalkDeps (collectVisit h d) parent ds (vis, s))))
         = P (w_keyFile s, w_pubKeyFile s)"
  using assms
proof (induction ds arbitrary: vis s)
  case Nil
  then show ?case by simp
next
  case (Cons x ds)
  obtain t c cs where x: "x = Dep t c cs" by (cases x)
  from WalkDeps_step[of h d parent t c cs ds vis s]
  obtain vis' s' where
    w: "WalkDeps (collectVisit h d) parent (Dep t c cs # ds) (vis, s)
          = WalkDeps (collectVisit h d) parent ds (vis', s')"
    and k: "keyPart s' = keyPart (snd (collectVisit h d t c parent s))"
    by blast
  from k have ks: "w_keyFile s' = w_keyFile (snd (collectVisit h d t c parent s))"
    "w_pubKeyFile s' = w_pubKeyFile (snd (collectVisit h d t c parent s))"
    by (simp_all add: keyPart_def)
  from Cons.prems[of x s] x ks
  have 1: "P (w_keyFile s', w_pubKeyFile s') = P (w_keyFile s, w_pubKeyFile s)" by simp
  have "P (w_keyFile (snd (WalkDeps (collectVisit h d) parent ds (vis', s'))),
            w_pubKeyFile (snd (WalkDeps (collectVisit h d) parent ds (vis', s'))))
         = P (w_keyFile s', w_pubKeyFile s')"
    by (rule Cons.IH) (simp add: Cons.prems)
  with 1 w x show ?case by simp
qed

lemma collectDeps_not_debuggable:
  "\<not> Debuggable ctx \<Longrightarrow> w_pubKeyFile (collectDeps ctx p deps) = None"
  unfolding collectDeps_def
  using WalkDeps_keys_invariant[where P=snd and d=False and ds=deps
      and s="\<lparr>w_filesInfo = [], w_keyFile = None, w_pubKeyFile = None,
               w_certificate = None, w_errors = []\<rparr>"]
  by (simp add: collectVisit_not_debuggable)

lemma WalkDeps_no_keyTag:
  assumes "\<forall>e\<in>set ds. edgeTag e \<noteq> keyTag"
  shows "w_pubKeyFile (snd (WalkDeps (collectVisit h d) parent ds (vis, s))) = w_pubKeyFile s"
  using WalkDeps_keys_invariant[where P=snd and ds=ds and h=h and d=d and parent=parent
      and vis=vis and s=s] assms
  by (simp add: collectVisit_no_keyTag)

lemma collectDeps_single_key:
  assumes "deps = pre @ Dep keyTag m cs # post"
    and "module_impl m = ApexKey key"
    and "\<forall>e\<in>set (pre @ post). edgeTag e \<noteq> keyTag"
  shows "w_pubKeyFile (collectDeps ctx p deps)
           = (if \<not> key_installable key \<and> Debuggable ctx then public_key_file key else None)"
proof -
  let ?V = "collectVisit (\<not> Bool (Ignore_system_library_special_case p)) (Debuggable ctx)"
  let ?s0 = "\<lparr>w_filesInfo = [], w_keyFile = None, w_pubKeyFile = None,
               w_certificate = None, w_errors = []\<rparr>"
  obtain vis1 s1 where 1: "WalkDeps ?V (thisModule ctx) pre ([], ?s0) = (vis1, s1)"
    by (cases "WalkDeps ?V (thisModule ctx) pre ([], ?s0)")
  from assms(3) have "\<forall>e\<in>set pre. edgeTag e \<noteq> keyTag" by simp
  from WalkDeps_no_keyTag[OF this, where h="\<not> Bool (Ignore_system_library_special_case p)"
      and d="Debuggable ctx" and parent="thisModule ctx" and vis="[]" and s="?s0"] 1
  have p1: "w_pubKeyFile s1 = None" by simp
  from WalkDeps_step[where h="\<not> Bool (Ignore_system_library_special_case p)"
      and d="Debuggable ctx" and parent="thisModule ctx" and t=keyTag and c=m and cs=cs
      and rest=post and vis=vis1 and s=s1]
  obtain vis2 s2 where
    2: "WalkDeps ?V (thisModule ctx) (Dep keyTag m cs # post) (vis1, s1)
          = WalkDeps ?V (thisModule ctx) post (vis2, s2)"
    and k: "keyPart s2 = keyPart (snd (?V keyTag m (thisModule ctx) s1))"
    by blast
  have ab: "isApexBundle (thisModule ctx)" by simp
  from k collectVisit_key[OF ab assms(2),
      where h="\<not> Bool (Ignore_system_library_special_case p)" and d="Debuggable ctx"
      and s=s1] p1
  have p2: "w_pubKeyFile s2
              = (if \<not> key_installable key \<and> Debuggable ctx then public_key_file key else None)"
    by (simp add: keyPart_def)
  from assms(3) have "\<forall>e\<in>set post. edgeTag e \<noteq> keyTag" by simp
  from WalkDeps_no_keyTag[OF this, where h="\<not> Bool (Ignore_system_library_special_case p)"
      and d="Debuggable ctx" and parent="thisModule ctx" and vis=vis2 and s=s2]
  have "w_pubKeyFile (snd (WalkDeps ?V (thisModule ctx) post (vis2, s2))) = w_pubKeyFile s2" .
  with p2 1 2 show ?thesis
    by (simp add: collectDeps_def assms(1) WalkDeps_append)
qed

lemma GenerateAndroidBuildActions_apexRule:
  assumes "GenerateAndroidBuildActions ctx p deps = Inr a"
    and "b \<in> set (ctx_Build a)" and "Rule b = apexRule"
  shows "\<exists>k. w_keyFile (collectDeps ctx p deps) = Some k
           \<and> b = apexRuleParams ctx p (normalize ctx (w_filesInfo (collectDeps ctx p deps))) k
                   (w_pubKeyFile (collectDeps ctx p deps)) ''image'' ''.apex''"
proof (cases "knownPayloadType p")
  case False
  with assms(1,2) show ?thesis
    by (auto simp: GenerateAndroidBuildActions_def Let_def knownPayloadType_def newBundle_def)
next
  case True
  show ?thesis
  proof (cases "w_keyFile (collectDeps ctx p deps)")
    case None
    from GenerateAndroidBuildActions_no_key[OF None] assms(1,2) show ?thesis
      by (auto simp: newBundle_def)
  next
    case (Some k)
    from GenerateAndroidBuildActions_builds(1)[OF assms(1) True Some] assms(2,3)
    have "b = apexRuleParams ctx p (normalize ctx (w_filesInfo (collectDeps ctx p deps))) k
                   (w_pubKeyFile (collectDeps ctx p deps)) ''image'' ''.apex''"
      by (auto simp: payloadBuilds_def split: if_splits option.splits)
    with Some show ?thesis by simp
  qed
qed

text \<open>
  C8. In a build that is not debuggable the walk assigns no public key file. When the
  bundle has one key dependency, on a key module, the walk assigns the public key file
  of that module if the module is not installable and the build is debuggable, and none
  otherwise. And every image rule that generation creates has the public key file among
  its implicit inputs and the flag \<open>--pubkey\<close> with it in its \<open>opt_flags\<close> when the walk
  has assigned one, and neither of them when it has not.
\<close>

theorem public_key_embedding:
  "(\<not> Debuggable ctx \<longrightarrow> w_pubKeyFile (collectDeps ctx p deps) = None)
   \<and> (deps = pre @ Dep keyTag m cs # post \<and> module_impl m = ApexKey key
        \<and> (\<forall>e\<in>set (pre @ post). edgeTag e \<noteq> keyTag) \<longrightarrow>
          w_pubKeyFile (collectDeps ctx p deps)
            = (if \<not> key_installable key \<and> Debuggable ctx then public_key_file key else None))
   \<and> (GenerateAndroidBuildActions ctx p deps = Inr a \<and> b \<in> set (ctx_Build a)
        \<and> Rule b = apexRule \<longrightarrow>
          (\<exists>k. w_keyFile (collectDeps ctx p deps) = Some k
             \<and> Implicits b =
                 map builtFile (normalize ctx (w_filesInfo (collectDeps ctx p deps)))
                 @ [manifestPath ctx p, PathForModuleOut ctx [''canned_fs_config''],
                    fileContextsPath ctx p, k]
                 @ (case w_pubKeyFile (collectDeps ctx p deps) of None \<Rightarrow> []
                    | Some pub \<Rightarrow> [pub]))
          \<and> map_of (Args b) ''opt_flags'' =
              Some (strings_Join
                      ((case w_pubKeyFile (collectDeps ctx p deps) of None \<Rightarrow> []
                        | Some pub \<Rightarrow> [''--pubkey '' @ pub])
                       @ (case OverrideManifestPackageName ctx of None \<Rightarrow> []
                          | Some n \<Rightarrow> [''--override_apk_package_name '' @ n]))
                      '' ''))"
proof (intro conjI impI)
  assume "\<not> Debuggable ctx"
  then show "w_pubKeyFile (collectDeps ctx p deps) = None"
    by (rule collectDeps_not_debuggable)
next
  assume "deps = pre @ Dep keyTag m cs # post \<and> module_impl m = ApexKey key
            \<and> (\<forall>e\<in>set (pre @ post). edgeTag e \<noteq> keyTag)"
  then show "w_pubKeyFile (collectDeps ctx p deps)
            = (if \<not> key_installable key \<and> Debuggable ctx then public_key_file key else None)"
    using collectDeps_single_key by blast
next
  assume h: "GenerateAndroidBuildActions ctx p deps = Inr a \<and> b \<in> set (ctx_Build a)
        \<and> Rule b = apexRule"
  with GenerateAndroidBuildActions_apexRule[of ctx p deps a b]
  obtain k where k: "w_keyFile (collectDeps ctx p deps) = Some k"
    and b: "b = apexRuleParams ctx p (normalize ctx (w_filesInfo (collectDeps ctx p deps))) k
                   (w_pubKeyFile (collectDeps ctx p deps)) ''image'' ''.apex''"
    by blast
  from k b show "\<exists>k. w_keyFile (collectDeps ctx p deps) = Some k
             \<and> Implicits b =
                 map builtFile (normalize ctx (w_filesInfo (collectDeps ctx p deps)))
                 @ [manifestPath ctx p, PathForModuleOut ctx [''canned_fs_config''],
                    fileContextsPath ctx p, k]
                 @ (case w_pubKeyFile (collectDeps ctx p deps) of None \<Rightarrow> []
                    | Some pub \<Rightarrow> [pub])"
    by (simp add: apexRuleParams_def Let_def)
  from b show "map_of (Args b) ''opt_flags'' =
              Some (strings_Join
                      ((case w_pubKeyFile (collectDeps ctx p deps) of None \<Rightarrow> []
                        | Some pub \<Rightarrow> [''--pubkey '' @ pub])
                       @ (case OverrideManifestPackageName ctx of None \<Rightarrow> []
                          | Some n \<Rightarrow> [''--override_apk_package_name '' @ n]))
                      '' '')"
    by (simp add: apexRuleParams_def Let_def)
qed


lemma ex_lib_key_apexRule:
  assumes "GenerateAndroidBuildActions ex_ctx ex_props ex_deps_lib_key = Inr a"
  shows "apexRuleParams ex_ctx ex_props
           (normalize ex_ctx (w_filesInfo (collectDeps ex_ctx ex_props ex_deps_lib_key)))
           ''apex/testkey.pem'' (w_pubKeyFile (collectDeps ex_ctx ex_props ex_deps_lib_key))
           ''image'' ''.apex'' \<in> set (ctx_Build a)"
  using GenerateAndroidBuildActions_builds(1)[OF assms ex_lib_key_hyps(1) ex_lib_key_hyps2(1)]
    ex_lib_key_hyps(4) ex_lib_key_hyps2(3)
  by (simp add: payloadBuilds_def)

theorem public_key_embedding_witness:
  "w_pubKeyFile (collectDeps ex_ctx ex_props ex_deps_lib_key) = Some ''apex/testkey.avbpubkey''
   \<and> w_pubKeyFile (collectDeps (ex_ctx\<lparr>Debuggable := False\<rparr>) ex_props ex_deps_lib_key) = None
   \<and> (\<exists>a b. GenerateAndroidBuildActions ex_ctx ex_props ex_deps_lib_key = Inr a
          \<and> b \<in> set (ctx_Build a) \<and> Rule b = apexRule
          \<and> map_of (Args b) ''opt_flags'' = Some ''--pubkey apex/testkey.avbpubkey'')"
proof -
  obtain a where a: "GenerateAndroidBuildActions ex_ctx ex_props ex_deps_lib_key = Inr a"
    using ex_lib_key_generated
    by (cases "GenerateAndroidBuildActions ex_ctx ex_props ex_deps_lib_key")
       (simp_all add: finalPaths_def)
  let ?b = "apexRuleParams ex_ctx ex_props
           (normalize ex_ctx (w_filesInfo (collectDeps ex_ctx ex_props ex_deps_lib_key)))
           ''apex/testkey.pem'' (w_pubKeyFile (collectDeps ex_ctx ex_props ex_deps_lib_key))
           ''image'' ''.apex''"
  let ?key = "\<lparr>private_key_file = Some ''apex/testkey.pem'',
               public_key_file = Some ''apex/testkey.avbpubkey'', key_installable = False\<rparr>"
  have d: "ex_deps_lib_key = [Dep sharedLibTag ex_libfoo []] @ Dep keyTag ex_key [] # []"
    by (simp add: ex_deps_lib_key_def)
  have m: "module_impl ex_key = ApexKey ?key" by (simp add: ex_key_def)
  have dbg: "Debuggable ex_ctx" "\<not> Debuggable (ex_ctx\<lparr>Debuggable := False\<rparr>)"
    "OverrideManifestPackageName ex_ctx = None"
    by (simp_all add: ex_ctx_def)
  note T = public_key_embedding[where ctx=ex_ctx and p=ex_props and deps=ex_deps_lib_key
      and pre="[Dep sharedLibTag ex_libfoo []]" and m=ex_key and cs="[]" and post="[]"
      and key="?key" and a=a and b="?b"]
  from T have "ex_deps_lib_key = [Dep sharedLibTag ex_libfoo []] @ Dep keyTag ex_key [] # []
        \<and> module_impl ex_key = ApexKey ?key
        \<and> (\<forall>e\<in>set ([Dep sharedLibTag ex_libfoo []] @ []). edgeTag e \<noteq> keyTag) \<longrightarrow>
          w_pubKeyFile (collectDeps ex_ctx ex_props ex_deps_lib_key)
            = (if \<not> key_installable ?key \<and> Debuggable ex_ctx then public_key_file ?key
               else None)"
    by blast
  with d m dbg(1)
  have 1: "w_pubKeyFile (collectDeps ex_ctx ex_props ex_deps_lib_key)
             = Some ''apex/testkey.avbpubkey''"
    by simp
  from T a ex_lib_key_apexRule[OF a]
  have "map_of (Args ?b) ''opt_flags'' =
              Some (strings_Join
                      ((case w_pubKeyFile (collectDeps ex_ctx ex_props ex_deps_lib_key) of
                          None \<Rightarrow> [] | Some pub \<Rightarrow> [''--pubkey '' @ pub])
                       @ (case OverrideManifestPackageName ex_ctx of None \<Rightarrow> []
                          | Some n \<Rightarrow> [''--override_apk_package_name '' @ n]))
                      '' '')"
    by simp
  with 1 dbg(3)
  have 3: "map_of (Args ?b) ''opt_flags'' = Some ''--pubkey apex/testkey.avbpubkey''"
    by simp
  from public_key_embedding[where ctx="ex_ctx\<lparr>Debuggable := False\<rparr>" and p=ex_props
      and deps=ex_deps_lib_key] dbg(2)
  have 2: "w_pubKeyFile (collectDeps (ex_ctx\<lparr>Debuggable := False\<rparr>) ex_props ex_deps_lib_key)
             = None"
    by simp
  from 1 2 3 a ex_lib_key_apexRule[OF a] show ?thesis
    by (intro conjI exI[of _ a] exI[of _ ?b]) simp_all
qed

subsection \<open>Variant propagation\<close>

lemma apexDepsVisit_eq:
  "apexDepsVisit p testApex name t child parent s =
     (ApexModule child \<and> CanHaveApexVariants child,
      s\<lparr>UpdateApexDependency_calls :=
           UpdateApexDependency_calls s
           @ (if installable p \<and> \<not> testApex
              then [(name, module_Name child, isApexBundle parent)] else []),
         BuildForApex_calls :=
           BuildForApex_calls s
           @ (if ApexModule child \<and> CanHaveApexVariants child
              then [(module_Name child, name)] else [])\<rparr>)"
  by (simp add: apexDepsVisit_def Let_def)

lemma apexDeps_walk_calls:
  "\<exists>cs. UpdateApexDependency_calls (snd (WalkDeps (apexDepsVisit p testApex name) parent ds (vis, s)))
           = UpdateApexDependency_calls s @ cs
        \<and> (\<not> (installable p \<and> \<not> testApex) \<longrightarrow> cs = [])"
proof (induction "apexDepsVisit p testApex name" parent ds "(vis, s)" arbitrary: vis s
       rule: WalkDeps.induct)
  case (1 parent visited s)
  then show ?case by simp
next
  case (2 parent depTag child ds rest visited s)
  let ?V = "apexDepsVisit p testApex name"
  obtain r s1 where v: "?V depTag child parent s = (r, s1)"
    by (cases "?V depTag child parent s")
  from v have c1: "\<exists>cs. UpdateApexDependency_calls s1 = UpdateApexDependency_calls s @ cs
                    \<and> (\<not> (installable p \<and> \<not> testApex) \<longrightarrow> cs = [])"
    by (auto simp: apexDepsVisit_eq)
  show ?case
  proof (cases "r \<and> child \<notin> set visited")
    case True
    obtain vis2 s2 where w: "WalkDeps ?V child ds (visited, s1) = (vis2, s2)"
      by (cases "WalkDeps ?V child ds (visited, s1)")
    from "2.hyps"(1)[OF v[symmetric] True] w
    have c2: "\<exists>cs. UpdateApexDependency_calls s2 = UpdateApexDependency_calls s1 @ cs
                    \<and> (\<not> (installable p \<and> \<not> testApex) \<longrightarrow> cs = [])"
      by simp
    from "2.hyps"(2)[OF v[symmetric] True w[symmetric]]
    have c3: "\<exists>cs. UpdateApexDependency_calls
                     (snd (WalkDeps ?V parent rest (child # vis2, s2)))
                   = UpdateApexDependency_calls s2 @ cs
                    \<and> (\<not> (installable p \<and> \<not> testApex) \<longrightarrow> cs = [])" .
    from c1 c2 c3 True v w show ?thesis by auto
  next
    case False
    from "2.hyps"(3)[OF v[symmetric] False]
    have c3: "\<exists>cs. UpdateApexDependency_calls (snd (WalkDeps ?V parent rest (visited, s1)))
                   = UpdateApexDependency_calls s1 @ cs
                    \<and> (\<not> (installable p \<and> \<not> testApex) \<longrightarrow> cs = [])" .
    from c1 c3 False v show ?thesis by auto
  qed
qed

lemma apexDeps_walk_direct:
  assumes "installable p \<and> \<not> testApex" and "e \<in> set ds"
  shows "(name, module_Name (edgeChild e), isApexBundle parent)
           \<in> set (UpdateApexDependency_calls
                    (snd (WalkDeps (apexDepsVisit p testApex name) parent ds (vis, s))))"
  using assms(2)
proof (induction ds arbitrary: vis s)
  case Nil
  then show ?case by simp
next
  case (Cons x ds)
  let ?V = "apexDepsVisit p testApex name"
  obtain t c cs where x: "x = Dep t c cs" by (cases x)
  obtain r s1 where v: "?V t c parent s = (r, s1)" by (cases "?V t c parent s")
  from v assms(1) have in1: "(name, module_Name c, isApexBundle parent)
                               \<in> set (UpdateApexDependency_calls s1)"
    by (auto simp: apexDepsVisit_eq)
  obtain vis' s' where
    w: "WalkDeps ?V parent (x # ds) (vis, s) = WalkDeps ?V parent ds (vis', s')"
    and sub: "set (UpdateApexDependency_calls s1) \<subseteq> set (UpdateApexDependency_calls s')"
  proof (cases "r \<and> c \<notin> set vis")
    case True
    obtain vis2 s2 where w2: "WalkDeps ?V c cs (vis, s1) = (vis2, s2)"
      by (cases "WalkDeps ?V c cs (vis, s1)")
    from apexDeps_walk_calls[of p testApex name c cs vis s1] w2
    have "set (UpdateApexDependency_calls s1) \<subseteq> set (UpdateApexDependency_calls s2)"
      by auto
    with True v w2 x that[of "c # vis2" s2] show ?thesis by simp
  next
    case False
    with v x that[of vis s1] show ?thesis by auto
  qed
  show ?case
  proof (cases "e = x")
    case True
    from apexDeps_walk_calls[of p testApex name parent ds vis' s']
    have "set (UpdateApexDependency_calls s')
            \<subseteq> set (UpdateApexDependency_calls (snd (WalkDeps ?V parent ds (vis', s'))))"
      by auto
    with in1 sub w True x show ?thesis by auto
  next
    case False
    with Cons.prems have "e \<in> set ds" by simp
    from Cons.IH[OF this, of vis' s'] w show ?thesis by simp
  qed
qed

text \<open>
  C5, as the code has it. The callback of the propagation walk calls
  \<open>UpdateApexDependency\<close> for the child it visits, with the name of the bundle, the name of
  the child and the flag that says whether the parent is an apex bundle, exactly when the
  bundle is installable and not a test bundle, and it tells the walk to go below the
  child exactly when the child is an \<open>ApexModule\<close> that can have apex variants (then it
  also marks the child to be built for the bundle). So a bundle that is not installable or
  is a test bundle makes no such call in its walk; an installable bundle that is not a
  test bundle makes the call with the flag set for every direct dependency; and the walk
  goes below a child when the child can have apex variants and was not walked before,
  and goes on with the next dependency otherwise.
\<close>

theorem install_dependency_calls:
  "apexDepsVisit p testApex name t child parent s =
     (ApexModule child \<and> CanHaveApexVariants child,
      s\<lparr>UpdateApexDependency_calls :=
           UpdateApexDependency_calls s
           @ (if installable p \<and> \<not> testApex
              then [(name, module_Name child, isApexBundle parent)] else []),
         BuildForApex_calls :=
           BuildForApex_calls s
           @ (if ApexModule child \<and> CanHaveApexVariants child
              then [(module_Name child, name)] else [])\<rparr>)
   \<and> (\<not> (installable p \<and> \<not> testApex) \<longrightarrow>
        UpdateApexDependency_calls (apexDepsMutator p testApex m ds) = [])
   \<and> (isApexBundle m \<and> installable p \<and> \<not> testApex \<longrightarrow>
        (\<forall>e\<in>set ds. (module_Name m, module_Name (edgeChild e), True)
                       \<in> set (UpdateApexDependency_calls (apexDepsMutator p testApex m ds))))
   \<and> WalkDeps (apexDepsVisit p testApex name) parent (Dep t child cs # rest) (vis, s) =
       (if ApexModule child \<and> CanHaveApexVariants child \<and> child \<notin> set vis
        then (case WalkDeps (apexDepsVisit p testApex name) child cs
                     (vis, snd (apexDepsVisit p testApex name t child parent s)) of
                (vis2, s2) \<Rightarrow>
                  WalkDeps (apexDepsVisit p testApex name) parent rest (child # vis2, s2))
        else WalkDeps (apexDepsVisit p testApex name) parent rest
               (vis, snd (apexDepsVisit p testApex name t child parent s)))"
proof (intro conjI)
  show "\<not> (installable p \<and> \<not> testApex) \<longrightarrow>
        UpdateApexDependency_calls (apexDepsMutator p testApex m ds) = []"
    using apexDeps_walk_calls[of p testApex "module_Name m" m ds "[]"
        "\<lparr>UpdateApexDependency_calls = [], BuildForApex_calls = []\<rparr>"]
    by (auto simp: apexDepsMutator_def Let_def)
  show "isApexBundle m \<and> installable p \<and> \<not> testApex \<longrightarrow>
        (\<forall>e\<in>set ds. (module_Name m, module_Name (edgeChild e), True)
                       \<in> set (UpdateApexDependency_calls (apexDepsMutator p testApex m ds)))"
    using apexDeps_walk_direct[of p testApex _ ds "module_Name m" m "[]"
        "\<lparr>UpdateApexDependency_calls = [], BuildForApex_calls = []\<rparr>"]
    by (auto simp: apexDepsMutator_def Let_def)
qed (simp_all add: apexDepsVisit_eq)

theorem install_dependency_calls_witness:
  "(''myapex'', ''libfoo'', True)
     \<in> set (UpdateApexDependency_calls (apexDepsMutator ex_props False ex_bundle ex_deps_tree))
   \<and> UpdateApexDependency_calls (apexDepsMutator ex_props True ex_bundle ex_deps_tree) = []"
proof -
  have h: "isApexBundle ex_bundle" "installable ex_props"
    "Dep sharedLibTag ex_libfoo [Dep otherTag ex_libbar []] \<in> set ex_deps_tree"
    "module_Name ex_bundle = ''myapex''" "module_Name ex_libfoo = ''libfoo''"
    by (simp_all add: isApexBundle_def ex_bundle_def installable_def ex_props_def
                      ex_deps_tree_def ex_libfoo_def)
  from install_dependency_calls[where p=ex_props and testApex=False and m=ex_bundle
      and ds=ex_deps_tree] h
  have 1: "(''myapex'', ''libfoo'', True)
     \<in> set (UpdateApexDependency_calls (apexDepsMutator ex_props False ex_bundle ex_deps_tree))"
    by fastforce
  from install_dependency_calls[where p=ex_props and testApex=True and m=ex_bundle
      and ds=ex_deps_tree]
  have 2: "UpdateApexDependency_calls (apexDepsMutator ex_props True ex_bundle ex_deps_tree) = []"
    by simp
  from 1 2 show ?thesis by simp
qed

text \<open>
  The walk from the bundle \<open>myapex\<close>, installable and not a test bundle, whose only direct
  dependency is \<open>libfoo\<close>, with \<open>libbar\<close> below it: \<open>UpdateApexDependency\<close> is called for
  \<open>libbar\<close> as well, with the flag unset.
\<close>

theorem indirect_dependency_recorded:
  "UpdateApexDependency_calls (apexDepsMutator ex_props False ex_bundle ex_deps_tree)
     = [(''myapex'', ''libfoo'', True), (''myapex'', ''libbar'', False)]
   \<and> map (\<lambda>e. module_Name (edgeChild e)) ex_deps_tree = [''libfoo'']"
  by code_simp

subsection \<open>A java library without dex jar\<close>
















subsection \<open>The access-mode manifest\<close>

text \<open>
  C4, at a script binary in a subdirectory of \<open>bin\<close>. The bundle \<open>myapex\<close> has the script
  binary \<open>tool\<close> with the subdirectory \<open>sub\<close>: its file is collected with the install
  directory \<open>bin/sub\<close> and the class of script binaries. The rule for the access-mode
  manifest gets the directories \<open>bin\<close> and \<open>bin/sub\<close> as executable paths and the file
  \<open>bin/sub/tool\<close> as a read-only path.
\<close>

theorem script_in_subdirectory_read_only:
  "map (\<lambda>f. (installDir f, fileClass f))
     (normalize ex_ctx (w_filesInfo (collectDeps ex_ctx ex_props ex_deps_tool)))
     = [(''bin/sub'', shBinary)]
   \<and> Args (generateFsConfigParams ex_ctx
              (normalize ex_ctx (w_filesInfo (collectDeps ex_ctx ex_props ex_deps_tool))))
     = [(''ro_paths'', ''bin/sub/tool''), (''exec_paths'', ''bin bin/sub'')]"
  by code_simp

end
